theory Spec2Isabelle
  imports Complex_Main "HOL-Library.Word" "HOL-Library.Signed_Division"
begin

unbundle bit_operations_syntax

section \<open>Data model\<close>

text \<open>
  Go's \<open>byte\<close> is an 8-bit word and \<open>uint32\<close> a 32-bit word. Go's \<open>int\<close> (64 bits)
  is modelled as \<open>int\<close>: every integer the decoders compute is built from at most
  three payload bytes and stays far from the 64-bit range. A \<open>float64\<close> is modelled as
  a \<open>real\<close>; the decimal constants of the source are taken at their written value.

  A \<open>time.Time\<close> is modelled as the number of nanoseconds since Go's zero instant, so
  that \<open>IsZero\<close> is comparison with 0; a \<open>time.Duration\<close> is a number of nanoseconds
  in the signed 64-bit range.
\<close>

type_synonym byte = "8 word"
type_synonym uint32 = "32 word"
type_synonym Time = int
type_synonym Duration = int

definition maxDuration :: Duration where
  "maxDuration = 2 ^ 63 - 1"

definition minDuration :: Duration where
  "minDuration = - (2 ^ 63)"

text \<open>\<open>t.Sub(u)\<close>: the difference, saturated to the range of a Duration.\<close>

definition time_Sub :: "Time \<Rightarrow> Time \<Rightarrow> Duration" where
  "time_Sub t u =
     (let d = t - u in
      if d > maxDuration then maxDuration
      else if d < minDuration then minDuration
      else d)"

text \<open>\<open>d.Milliseconds()\<close> is \<open>int64(d) / 1e6\<close>; Go's integer division truncates towards zero.\<close>

definition Milliseconds :: "Duration \<Rightarrow> int" where
  "Milliseconds d = d sdiv 1000000"

definition IsZero :: "Time \<Rightarrow> bool" where
  "IsZero t \<longleftrightarrow> t = 0"

definition After :: "Time \<Rightarrow> Time \<Rightarrow> bool" where
  "After t u \<longleftrightarrow> t > u"

text \<open>\<open>math.Round\<close> rounds half away from zero; the result is kept as an integer.\<close>

definition go_Round :: "real \<Rightarrow> int" where
  "go_Round x = (if x < 0 then - \<lfloor>- x + 1 / 2\<rfloor> else \<lfloor>x + 1 / 2\<rfloor>)"

record Position =
  pos_Lat :: real
  pos_Lon :: real
  pos_Altitude :: int
  pos_Heading :: int
  pos_Timestamp :: Time

text \<open>
  The \<open>Aircraft\<close> struct of the adsb package (part 002). The mutex is not modelled;
  \<open>SignalLevel\<close>, an array of 8 bytes, is a list of length 8.
\<close>

record Aircraft =
  ICAO :: uint32
  Flight :: string
  Altitude :: int
  Speed :: int
  Heading :: int
  VertRate :: int
  Lat :: real
  Lon :: real
  Seen :: Time
  SeenLatLon :: Time
  X :: int
  Y :: int
  OnGround :: bool
  SignalLevel :: "byte list"
  EvenCPRLat :: int
  EvenCPRLon :: int
  OddCPRLat :: int
  OddCPRLon :: int
  EvenCPRTime :: Time
  OddCPRTime :: Time
  Trail :: "Position list"
  LabelX :: real
  LabelY :: real
  LabelW :: real
  LabelH :: real
  LabelDX :: real
  LabelDY :: real
  LabelOpacity :: real
  LabelLevel :: real
  LastUpdateTime :: Time

section \<open>Altitude decoding\<close>

text \<open>\<open>gillhamToAltitude\<close>, \<open>decodeAC12Field\<close> (part 002).\<close>

definition gillhamToAltitude :: "int \<Rightarrow> int" where
  "gillhamToAltitude code = code * 100"

definition decodeAC12Field :: "int \<Rightarrow> int" where
  "decodeAC12Field ac12Field =
     (if ac12Field = 0 then 0
      else
        let qBit = ac12Field AND 0x10 in
        if qBit \<noteq> 0 then
          (let n = drop_bit 1 (ac12Field AND 0x0FE0) OR (ac12Field AND 0x000F)
           in (n * 25) - 1000)
        else gillhamToAltitude ac12Field)"

text \<open>
  \<open>DecodeAltitude\<close> (map.go). The field it reads from bytes 5 and 6 is named
  \<open>ac12Field_of\<close> here, so that theorems can speak about it.
\<close>

definition ac12Field_of :: "byte list \<Rightarrow> 16 word" where
  "ac12Field_of data =
     push_bit 7 ((ucast (data ! 5) :: 16 word) AND 0x1F)
       OR drop_bit 1 ((ucast (data ! 6) :: 16 word) AND 0xFE)"

definition DecodeAltitude :: "byte list \<Rightarrow> int" where
  "DecodeAltitude data =
     (if length data < 7 then 0
      else
        let ac12Field = ac12Field_of data;
            qBit = (ac12Field AND 0x10 \<noteq> 0)
        in if qBit then
             (let n = drop_bit 1 (ac12Field AND 0x0FE0) OR (ac12Field AND 0x000F)
              in (uint n * 25) - 1000)
           else 0)"

text \<open>
  The specification's reading of the 12-bit field: the Q-bit is bit 4 (value 16), and
  N is the field with that bit taken out, the seven bits above it moved down by one.
\<close>

definition qBit_set :: "int \<Rightarrow> bool" where
  "qBit_set f \<longleftrightarrow> f div 16 mod 2 = 1"

definition removeQ :: "int \<Rightarrow> int" where
  "removeQ f = (f div 32) * 16 + f mod 16"

section \<open>CPR zone functions\<close>

text \<open>
  \<open>cprModFunction\<close> (both files). Go's \<open>%\<close> is the truncated remainder \<open>smod\<close>.
  Every caller passes a non-zero \<open>b\<close>.
\<close>

definition cprModFunction :: "int \<Rightarrow> int \<Rightarrow> int" where
  "cprModFunction a b = (let res = a smod b in if res < 0 then res + b else res)"

text \<open>\<open>cprNLFunction\<close> of part 002: the chain of latitude thresholds.\<close>

definition cprNLFunction :: "real \<Rightarrow> int" where
  "cprNLFunction lat0 =
     (let lat = (if lat0 < 0 then - lat0 else lat0) in
      if lat < 10.47047130 then 59
      else if lat < 14.82817437 then 58
      else if lat < 18.18626357 then 57
      else if lat < 21.02939493 then 56
      else if lat < 23.54504487 then 55
      else if lat < 25.82924707 then 54
      else if lat < 27.93898710 then 53
      else if lat < 29.91135686 then 52
      else if lat < 31.77209708 then 51
      else if lat < 33.53993436 then 50
      else if lat < 35.22899598 then 49
      else if lat < 36.85025108 then 48
      else if lat < 38.41241892 then 47
      else if lat < 39.92256684 then 46
      else if lat < 41.38651832 then 45
      else if lat < 42.80914012 then 44
      else if lat < 44.19454951 then 43
      else if lat < 45.54626723 then 42
      else if lat < 46.86733252 then 41
      else if lat < 48.16039128 then 40
      else if lat < 49.42776439 then 39
      else if lat < 50.67150166 then 38
      else if lat < 51.89342469 then 37
      else if lat < 53.09516153 then 36
      else if lat < 54.27817472 then 35
      else if lat < 55.44378444 then 34
      else if lat < 56.59318756 then 33
      else if lat < 57.72747354 then 32
      else if lat < 58.84763776 then 31
      else if lat < 59.95459277 then 30
      else if lat < 61.04917774 then 29
      else if lat < 62.13216659 then 28
      else if lat < 63.20427479 then 27
      else if lat < 64.26616523 then 26
      else if lat < 65.31845310 then 25
      else if lat < 66.36171008 then 24
      else if lat < 67.39646774 then 23
      else if lat < 68.42322022 then 22
      else if lat < 69.44242631 then 21
      else if lat < 70.45451075 then 20
      else if lat < 71.45986473 then 19
      else if lat < 72.45884545 then 18
      else if lat < 73.45177442 then 17
      else if lat < 74.43893416 then 16
      else if lat < 75.42056257 then 15
      else if lat < 76.39684391 then 14
      else if lat < 77.36789461 then 13
      else if lat < 78.33374083 then 12
      else if lat < 79.29428225 then 11
      else if lat < 80.24923213 then 10
      else if lat < 81.19801349 then 9
      else if lat < 82.13956981 then 8
      else if lat < 83.07199445 then 7
      else if lat < 83.99173563 then 6
      else if lat < 84.89166191 then 5
      else if lat < 85.75541621 then 4
      else if lat < 86.53536998 then 3
      else if lat < 87.00000000 then 2
      else 1)"

text \<open>\<open>nl_table\<close> and \<open>cprNLFunction\<close> of map.go: the table indexed by the rounded latitude.\<close>

definition NL_LOOKUP_TABLE_SIZE :: int where
  "NL_LOOKUP_TABLE_SIZE = 90"

definition nl_table :: "int list" where
  "nl_table =
     [59, 59, 59, 59, 59, 59, 59, 59, 59, 58, 58, 58, 58, 58, 57, 57,
      57, 57, 57, 57, 56, 56, 56, 56, 56, 56, 55, 55, 55, 55, 55, 54, 54, 54, 54,
      54, 53, 53, 53, 53, 52, 52, 52, 52, 51, 51, 51, 51, 50, 50, 50, 49, 49, 49,
      48, 48, 48, 47, 47, 47, 46, 46, 46, 45, 45, 44, 44, 44, 43, 43, 42, 42, 41,
      41, 41, 40, 40, 39, 39, 38, 38, 37, 37, 36, 36, 35, 35, 34, 34, 33]"

definition cprNLFunction_map :: "real \<Rightarrow> int" where
  "cprNLFunction_map lat0 =
     (let lat = (if lat0 < 0 then - lat0 else lat0);
          r = go_Round lat
      in if r \<ge> NL_LOOKUP_TABLE_SIZE then 1 else nl_table ! nat r)"

section \<open>Callsign decoding\<close>

definition charset :: string where
  "charset = ''?ABCDEFGHIJKLMNOPQRSTUVWXYZ????? ???????????????0123456789??????''"

text \<open>
  The trailing-space loop of both callsign decoders:
  \<open>i := 7; for i >= 0 && result[i] == ' ' { i-- }\<close>.
\<close>

function trim_loop :: "string \<Rightarrow> int \<Rightarrow> int" where
  "trim_loop result i =
     (if i \<ge> 0 \<and> result ! nat i = CHR '' '' then trim_loop result (i - 1) else i)"
  by pat_completeness auto
termination
  by (relation "measure (\<lambda>(result, i). nat (i + 1))") auto

declare trim_loop.simps [simp del]

text \<open>\<open>decodeAircraftID\<close> (part 002); \<open>bits\<close> is a \<open>uint64\<close>.\<close>

definition decodeAircraftID :: "byte list \<Rightarrow> string" where
  "decodeAircraftID data =
     (if length data < 6 then []
      else
        let bits = (push_bit 16 (ucast (data ! 0) :: 64 word)
                      OR push_bit 8 (ucast (data ! 1))) OR ucast (data ! 2);
            r0 = charset ! unat (drop_bit 18 bits AND 0x3F);
            r1 = charset ! unat (drop_bit 12 bits AND 0x3F);
            r2 = charset ! unat (drop_bit 6 bits AND 0x3F);
            r3 = charset ! unat (bits AND 0x3F);
            bits = (push_bit 16 (ucast (data ! 3) :: 64 word)
                      OR push_bit 8 (ucast (data ! 4))) OR ucast (data ! 5);
            r4 = charset ! unat (drop_bit 18 bits AND 0x3F);
            r5 = charset ! unat (drop_bit 12 bits AND 0x3F);
            r6 = charset ! unat (drop_bit 6 bits AND 0x3F);
            r7 = charset ! unat (bits AND 0x3F);
            result = [r0, r1, r2, r3, r4, r5, r6, r7];
            i = trim_loop result 7
        in take (nat (i + 1)) result)"

text \<open>\<open>DecodeCallsign\<close> (map.go); \<open>bits\<close> is a \<open>uint32\<close>.\<close>

definition DecodeCallsign :: "byte list \<Rightarrow> string" where
  "DecodeCallsign data =
     (if length data < 6 then []
      else
        let bits = (push_bit 16 (ucast (data ! 0) :: 32 word)
                      OR push_bit 8 (ucast (data ! 1))) OR ucast (data ! 2);
            c0 = charset ! unat (drop_bit 18 bits AND 0x3F);
            c1 = charset ! unat (drop_bit 12 bits AND 0x3F);
            c2 = charset ! unat (drop_bit 6 bits AND 0x3F);
            c3 = charset ! unat (bits AND 0x3F);
            bits = (push_bit 16 (ucast (data ! 3) :: 32 word)
                      OR push_bit 8 (ucast (data ! 4))) OR ucast (data ! 5);
            c4 = charset ! unat (drop_bit 18 bits AND 0x3F);
            c5 = charset ! unat (drop_bit 12 bits AND 0x3F);
            c6 = charset ! unat (drop_bit 6 bits AND 0x3F);
            c7 = charset ! unat (bits AND 0x3F);
            callsign = [c0, c1, c2, c3, c4, c5, c6, c7];
            i = trim_loop callsign 7
        in take (nat (i + 1)) callsign)"

text \<open>
  The specification's reading: the six bytes are one 48-bit number, most significant
  byte first; its eight 6-bit groups, most significant first, index the character set;
  trailing spaces are removed.
\<close>

definition value48 :: "byte list \<Rightarrow> nat" where
  "value48 data = foldl (\<lambda>acc b. acc * 256 + unat b) 0 (take 6 data)"

definition sixbit_groups :: "byte list \<Rightarrow> nat list" where
  "sixbit_groups data = map (\<lambda>k. (value48 data div 64 ^ (7 - k)) mod 64) [0..<8]"

definition trim_trailing_spaces :: "string \<Rightarrow> string" where
  "trim_trailing_spaces s = rev (dropWhile (\<lambda>c. c = CHR '' '') (rev s))"

definition callsign_spec :: "byte list \<Rightarrow> string" where
  "callsign_spec data = trim_trailing_spaces (map (\<lambda>g. charset ! g) (sixbit_groups data))"

section \<open>Aircraft store (part 002)\<close>

text \<open>
  The store maps an ICAO address to a pointer to an \<open>Aircraft\<close>. Pointers are modelled
  as addresses into a heap of aircraft records; \<open>am_nxt\<close> is the next unused address, so
  that \<open>&Aircraft{...}\<close> yields an address no earlier allocation returned. The locks
  are not modelled: every operation below runs with the map's lock held.
\<close>

type_synonym addr = nat

record AircraftMap =
  am_data :: "uint32 \<rightharpoonup> addr"
  am_heap :: "addr \<Rightarrow> Aircraft"
  am_nxt :: addr

text \<open>\<open>TrailLength\<close> (part 002 and map.go).\<close>

definition TrailLength :: nat where
  "TrailLength = 120"

text \<open>
  \<open>GetOrCreate\<close> (part 002). \<open>now\<close> stands for the two readings of \<open>time.Now()\<close>
  that a creation makes; fields the composite literal does not mention get Go's zero
  values.
\<close>

definition GetOrCreate :: "Time \<Rightarrow> uint32 \<Rightarrow> AircraftMap \<Rightarrow> addr \<times> AircraftMap" where
  "GetOrCreate now icao am =
     (case am_data am icao of
        Some aircraft \<Rightarrow> (aircraft, am)
      | None \<Rightarrow>
          let aircraft = am_nxt am;
              obj = \<lparr>ICAO = icao, Flight = [], Altitude = 0, Speed = 0, Heading = 0,
                     VertRate = 0, Lat = 0, Lon = 0, Seen = now, SeenLatLon = 0, X = 0, Y = 0,
                     OnGround = False, SignalLevel = replicate 8 0,
                     EvenCPRLat = 0, EvenCPRLon = 0, OddCPRLat = 0, OddCPRLon = 0,
                     EvenCPRTime = 0, OddCPRTime = 0, Trail = [],
                     LabelX = 0, LabelY = 0, LabelW = 0, LabelH = 0, LabelDX = 0, LabelDY = 0,
                     LabelOpacity = 0, LabelLevel = 0, LastUpdateTime = now\<rparr>
          in (aircraft,
              am\<lparr>am_data := (am_data am)(icao \<mapsto> aircraft),
                 am_heap := (am_heap am)(aircraft := obj),
                 am_nxt := Suc (am_nxt am)\<rparr>))"

text \<open>
  \<open>RemoveStale\<close> (part 002). Go ranges over the map in an unspecified order; the order
  is the list \<open>ks\<close> of the map's keys. The loop body deletes the key it visits when
  the aircraft was last seen more than \<open>ttl\<close> ago.
\<close>

fun RemoveStale_loop ::
  "Time \<Rightarrow> Duration \<Rightarrow> (addr \<Rightarrow> Aircraft) \<Rightarrow> uint32 list \<Rightarrow> (uint32 \<rightharpoonup> addr) \<Rightarrow> (uint32 \<rightharpoonup> addr)"
where
  "RemoveStale_loop now ttl h [] d = d"
| "RemoveStale_loop now ttl h (icao # ks) d =
     (case d icao of
        None \<Rightarrow> RemoveStale_loop now ttl h ks d
      | Some aircraft \<Rightarrow>
          if time_Sub now (Seen (h aircraft)) > ttl
          then RemoveStale_loop now ttl h ks (d(icao := None))
          else RemoveStale_loop now ttl h ks d)"

definition RemoveStale :: "Time \<Rightarrow> Duration \<Rightarrow> uint32 list \<Rightarrow> AircraftMap \<Rightarrow> AircraftMap" where
  "RemoveStale now ttl ks am = am\<lparr>am_data := RemoveStale_loop now ttl (am_heap am) ks (am_data am)\<rparr>"

text \<open>
  \<open>addToTrail\<close> (part 002), on the aircraft record; \<open>now\<close> is the reading of
  \<open>time.Now()\<close>. \<open>Trail[1:]\<close> is taken only of a trail of at least 120 entries.
\<close>

definition addToTrail :: "Time \<Rightarrow> Aircraft \<Rightarrow> real \<Rightarrow> real \<Rightarrow> Aircraft" where
  "addToTrail now aircraft lat lon =
     (let pos = \<lparr>pos_Lat = lat, pos_Lon = lon, pos_Altitude = Altitude aircraft,
                  pos_Heading = Heading aircraft, pos_Timestamp = now\<rparr>;
          aircraft = (if length (Trail aircraft) \<ge> TrailLength
                      then aircraft\<lparr>Trail := drop 1 (Trail aircraft)\<rparr> else aircraft)
      in aircraft\<lparr>Trail := Trail aircraft @ [pos]\<rparr>)"

text \<open>A sequence of trail appends: each entry is the clock reading and the position.\<close>

fun addToTrail_many :: "(Time \<times> real \<times> real) list \<Rightarrow> Aircraft \<Rightarrow> Aircraft" where
  "addToTrail_many [] aircraft = aircraft"
| "addToTrail_many ((now, lat, lon) # ps) aircraft =
     addToTrail_many ps (addToTrail now aircraft lat lon)"

text \<open>The position that \<open>addToTrail\<close> builds for an aircraft and an append.\<close>

definition trail_pos :: "Aircraft \<Rightarrow> Time \<times> real \<times> real \<Rightarrow> Position" where
  "trail_pos aircraft p =
     (case p of (now, lat, lon) \<Rightarrow>
        \<lparr>pos_Lat = lat, pos_Lon = lon, pos_Altitude = Altitude aircraft,
         pos_Heading = Heading aircraft, pos_Timestamp = now\<rparr>)"

section \<open>CPR resolution (part 002)\<close>

text \<open>\<open>cprN\<close> and \<open>cprDlon\<close> (part 002).\<close>

definition cprN :: "real \<Rightarrow> bool \<Rightarrow> int" where
  "cprN lat odd' = (let nl = cprNLFunction lat in if \<not> odd' then nl else nl - 1)"

definition cprDlon :: "real \<Rightarrow> bool \<Rightarrow> real" where
  "cprDlon lat odd' = 360.0 / of_int (cprN lat odd')"

text \<open>
  \<open>DecodeCPRPosition\<close> (part 002). The result \<open>(0, 0, false)\<close> is \<open>None\<close>, and
  \<open>(lat, lon, true)\<close> is \<open>Some (lat, lon)\<close>. \<open>math.Floor\<close> is \<open>\<lfloor>_\<rfloor>\<close>, and the
  conversions \<open>int(j)\<close>, \<open>int(m)\<close> of an integral float are the integer itself.
\<close>

definition DecodeCPRPosition :: "Aircraft \<Rightarrow> Aircraft \<Rightarrow> (real \<times> real) option" where
  "DecodeCPRPosition evenPos oddPos =
     (if IsZero (EvenCPRTime evenPos) \<or> IsZero (OddCPRTime oddPos) then None
      else if \<bar>of_int (Milliseconds (time_Sub (EvenCPRTime evenPos) (OddCPRTime oddPos))) :: real\<bar>
                > 10000 then None
      else
        let rlat0 = of_int (EvenCPRLat evenPos) / 131072.0;
            rlat1 = of_int (OddCPRLat oddPos) / 131072.0;
            rlon0 = of_int (EvenCPRLon evenPos) / 131072.0;
            rlon1 = of_int (OddCPRLon oddPos) / 131072.0;
            airDlat0 = 360.0 / 60.0;
            airDlat1 = 360.0 / 59.0;
            j = \<lfloor>59.0 * rlat0 - 60.0 * rlat1 + 0.5 :: real\<rfloor>;
            lat0 = airDlat0 * (of_int (cprModFunction j 60) + rlat0);
            lat1 = airDlat1 * (of_int (cprModFunction j 59) + rlat1);
            lat0 = (if lat0 \<ge> 270 then lat0 - 360 else lat0);
            lat1 = (if lat1 \<ge> 270 then lat1 - 360 else lat1)
        in
          if lat0 < - 90 \<or> lat0 > 90 \<or> lat1 < - 90 \<or> lat1 > 90 then None
          else if cprNLFunction lat0 \<noteq> cprNLFunction lat1 then None
          else
            let usesOdd = After (OddCPRTime oddPos) (EvenCPRTime evenPos);
                lat = (if usesOdd then lat1 else lat0);
                ni = cprN lat usesOdd
            in
              if ni \<noteq> 0 then
                let m = \<lfloor>(of_int (EvenCPRLon evenPos) * of_int (cprNLFunction lat - 1)
                            - of_int (OddCPRLon oddPos) * of_int (cprNLFunction lat))
                           / 131072.0 + 0.5 :: real\<rfloor>;
                    lon = (if usesOdd
                           then cprDlon lat True * (of_int (cprModFunction m ni) + rlon1)
                           else cprDlon lat False * (of_int (cprModFunction m ni) + rlon0));
                    lon = (if lon > 180 then lon - 360 else lon)
                in Some (lat, lon)
              else None)"

section \<open>CPR resolution (map.go)\<close>

definition cprNFunction :: "real \<Rightarrow> bool \<Rightarrow> int" where
  "cprNFunction lat odd' = (let nl = cprNLFunction_map lat in if odd' then nl - 1 else nl)"

definition cprDlonFunction :: "real \<Rightarrow> bool \<Rightarrow> bool \<Rightarrow> real" where
  "cprDlonFunction lat odd' surface =
     (if surface then 90.0 / of_int (cprNFunction lat odd')
      else 360.0 / of_int (cprNFunction lat odd'))"

definition DecodeCPRPosition_map ::
  "int \<Rightarrow> int \<Rightarrow> int \<Rightarrow> int \<Rightarrow> bool \<Rightarrow> (real \<times> real) option"
where
  "DecodeCPRPosition_map evenLat evenLon oddLat oddLon lastOdd =
     (let airDlat0 = 360.0 / 60.0;
          airDlat1 = 360.0 / 59.0;
          rlat0 = of_int evenLat / 131072.0;
          rlat1 = of_int oddLat / 131072.0;
          rlon0 = of_int evenLon / 131072.0;
          rlon1 = of_int oddLon / 131072.0;
          j = \<lfloor>((59.0 * rlat0 - 60.0 * rlat1) / 1.0) + 0.5 :: real\<rfloor>;
          lat0 = airDlat0 * (of_int (cprModFunction j 60) + rlat0);
          lat1 = airDlat1 * (of_int (cprModFunction j 59) + rlat1);
          lat0 = (if lat0 \<ge> 270 then lat0 - 360 else lat0);
          lat1 = (if lat1 \<ge> 270 then lat1 - 360 else lat1)
      in
        if cprNLFunction_map lat0 \<noteq> cprNLFunction_map lat1 then None
        else
          let lat = (if lastOdd then lat1 else lat0) in
          if lat < - 90 \<or> lat > 90 then None
          else if lastOdd then
            let ni = cprNFunction lat True in
            if ni = 0 then None
            else
              let m = \<lfloor>(((rlon0 * of_int (cprNLFunction_map lat - 1))
                           - (rlon1 * of_int (cprNLFunction_map lat))) / 1.0) + 0.5 :: real\<rfloor>;
                  lon = cprDlonFunction lat True False * (of_int (cprModFunction m ni) + rlon1);
                  lon = (if lon > 180 then lon - 360 else lon)
              in Some (lat, lon)
          else
            let ni = cprNFunction lat False in
            if ni = 0 then None
            else
              let m = \<lfloor>(((rlon0 * of_int (cprNLFunction_map lat - 1))
                           - (rlon1 * of_int (cprNLFunction_map lat))) / 1.0) + 0.5 :: real\<rfloor>;
                  lon = cprDlonFunction lat False False * (of_int (cprModFunction m ni) + rlon0);
                  lon = (if lon > 180 then lon - 360 else lon)
              in Some (lat, lon))"

text \<open>
  A track holding the raw CPR values of the worked example (even 93000, 51372; odd 74158,
  50194), with the two reception times given; every other field has its zero value.
\<close>

definition worked_example :: "Time \<Rightarrow> Time \<Rightarrow> Aircraft" where
  "worked_example tEven tOdd =
     \<lparr>ICAO = 0, Flight = [], Altitude = 0, Speed = 0, Heading = 0,
      VertRate = 0, Lat = 0, Lon = 0, Seen = 0, SeenLatLon = 0, X = 0, Y = 0,
      OnGround = False, SignalLevel = replicate 8 0,
      EvenCPRLat = 93000, EvenCPRLon = 51372, OddCPRLat = 74158, OddCPRLon = 50194,
      EvenCPRTime = tEven, OddCPRTime = tOdd, Trail = [],
      LabelX = 0, LabelY = 0, LabelW = 0, LabelH = 0, LabelDX = 0, LabelDY = 0,
      LabelOpacity = 0, LabelLevel = 0, LastUpdateTime = 0\<rparr>"

section \<open>The adsb package of map.go\<close>

text \<open>
  The \<open>Aircraft\<close> struct as map.go declares it (fields carry the suffix \<open>_m\<close>): the CPR
  times are \<open>int64\<close> milliseconds, there is a message counter and no \<open>LastUpdateTime\<close>.
\<close>

record Aircraft_map =
  ICAO_m :: uint32
  Flight_m :: string
  Altitude_m :: int
  Speed_m :: int
  Heading_m :: int
  VertRate_m :: int
  Lat_m :: real
  Lon_m :: real
  Seen_m :: Time
  SeenLatLon_m :: Time
  X_m :: int
  Y_m :: int
  OnGround_m :: bool
  SignalLevel_m :: "byte list"
  EvenCPRLat_m :: int
  EvenCPRLon_m :: int
  OddCPRLat_m :: int
  OddCPRLon_m :: int
  EvenCPRTime_m :: int
  OddCPRTime_m :: int
  Trail_m :: "Position list"
  LabelX_m :: real
  LabelY_m :: real
  LabelW_m :: real
  LabelH_m :: real
  LabelDX_m :: real
  LabelDY_m :: real
  LabelOpacity_m :: real
  LabelLevel_m :: real
  Messages_m :: int

record AircraftMap_map =
  data_m :: "uint32 \<rightharpoonup> addr"
  heap_m :: "addr \<Rightarrow> Aircraft_map"
  nxt_m :: addr

text \<open>\<open>GetOrCreate\<close> (map.go).\<close>

definition GetOrCreate_map ::
  "Time \<Rightarrow> uint32 \<Rightarrow> AircraftMap_map \<Rightarrow> addr \<times> AircraftMap_map"
where
  "GetOrCreate_map now icao am =
     (case data_m am icao of
        Some aircraft \<Rightarrow> (aircraft, am)
      | None \<Rightarrow>
          let aircraft = nxt_m am;
              obj = \<lparr>ICAO_m = icao, Flight_m = [], Altitude_m = 0, Speed_m = 0, Heading_m = 0,
                     VertRate_m = 0, Lat_m = 0, Lon_m = 0, Seen_m = now, SeenLatLon_m = 0,
                     X_m = 0, Y_m = 0, OnGround_m = False, SignalLevel_m = replicate 8 0,
                     EvenCPRLat_m = 0, EvenCPRLon_m = 0, OddCPRLat_m = 0, OddCPRLon_m = 0,
                     EvenCPRTime_m = 0, OddCPRTime_m = 0, Trail_m = [],
                     LabelX_m = 0, LabelY_m = 0, LabelW_m = 0, LabelH_m = 0,
                     LabelDX_m = 0, LabelDY_m = 0, LabelOpacity_m = 0, LabelLevel_m = 0,
                     Messages_m = 0\<rparr>
          in (aircraft,
              am\<lparr>data_m := (data_m am)(icao \<mapsto> aircraft),
                 heap_m := (heap_m am)(aircraft := obj),
                 nxt_m := Suc (nxt_m am)\<rparr>))"

text \<open>\<open>RemoveStale\<close> (map.go), with the iteration order \<open>ks\<close> as for part 002.\<close>

fun RemoveStale_loop_map ::
  "Time \<Rightarrow> Duration \<Rightarrow> (addr \<Rightarrow> Aircraft_map) \<Rightarrow> uint32 list \<Rightarrow> (uint32 \<rightharpoonup> addr)
     \<Rightarrow> (uint32 \<rightharpoonup> addr)"
where
  "RemoveStale_loop_map now ttl h [] d = d"
| "RemoveStale_loop_map now ttl h (icao # ks) d =
     (case d icao of
        None \<Rightarrow> RemoveStale_loop_map now ttl h ks d
      | Some aircraft \<Rightarrow>
          if time_Sub now (Seen_m (h aircraft)) > ttl
          then RemoveStale_loop_map now ttl h ks (d(icao := None))
          else RemoveStale_loop_map now ttl h ks d)"

definition RemoveStale_map ::
  "Time \<Rightarrow> Duration \<Rightarrow> uint32 list \<Rightarrow> AircraftMap_map \<Rightarrow> AircraftMap_map"
where
  "RemoveStale_map now ttl ks am =
     am\<lparr>data_m := RemoveStale_loop_map now ttl (heap_m am) ks (data_m am)\<rparr>"

text \<open>
  \<open>math.Atan2(y, x)\<close> for finite arguments, and \<open>int(math.Sqrt(float64(n)))\<close> for a
  non-negative \<open>n\<close>.
\<close>

definition go_Atan2 :: "real \<Rightarrow> real \<Rightarrow> real" where
  "go_Atan2 y x =
     (if x > 0 then arctan (y / x)
      else if x < 0 \<and> y \<ge> 0 then arctan (y / x) + pi
      else if x < 0 \<and> y < 0 then arctan (y / x) - pi
      else if y > 0 then pi / 2
      else if y < 0 then - pi / 2
      else 0)"

definition int_Sqrt :: "int \<Rightarrow> int" where
  "int_Sqrt n = \<lfloor>sqrt (of_int n)\<rfloor>"

text \<open>\<open>DecodeVelocity\<close> (map.go).\<close>

definition DecodeVelocity :: "byte list \<Rightarrow> int \<times> int \<times> int \<times> bool" where
  "DecodeVelocity data =
     (if length data < 10 then (0, 0, 0, False)
      else
        let subtype = data ! 4 AND 0x07 in
        if subtype < 1 \<or> subtype > 4 then (0, 0, 0, False)
        else
          let vertRateBit = (data ! 8 AND 0x08 \<noteq> 0);
              vertRateRaw = push_bit 6 (uint (data ! 8) AND 0x07) OR drop_bit 2 (uint (data ! 9));
              vertRate =
                (if vertRateRaw \<noteq> 0 then
                   (let vertRateRaw = vertRateRaw - 1;
                        vertRateRaw = (if vertRateBit then - vertRateRaw else vertRateRaw)
                    in vertRateRaw * 64)
                 else 0)
          in
            if subtype = 1 \<or> subtype = 2 then
              let ewSign = (data ! 5 AND 0x04 \<noteq> 0);
                  ewRaw = push_bit 8 (uint (data ! 5) AND 0x03) OR uint (data ! 6);
                  ewVel = ewRaw - 1;
                  ewVel = (if ewSign then - ewVel else ewVel);
                  nsSign = (data ! 7 AND 0x80 \<noteq> 0);
                  nsRaw = push_bit 3 (uint (data ! 7) AND 0x7F) OR drop_bit 5 (uint (data ! 8));
                  nsVel = nsRaw - 1;
                  nsVel = (if nsSign then - nsVel else nsVel);
                  ewVel = (if subtype = 2 then ewVel * 4 else ewVel);
                  nsVel = (if subtype = 2 then nsVel * 4 else nsVel);
                  speed = int_Sqrt (ewVel * ewVel + nsVel * nsVel);
                  heading =
                    (if speed > 0 then
                       (let heading = go_Round (go_Atan2 (of_int ewVel) (of_int nsVel) * 180.0 / pi)
                        in if heading < 0 then heading + 360 else heading)
                     else 0)
              in (speed, heading, vertRate, True)
            else if subtype = 3 \<or> subtype = 4 then
              let airspeed = push_bit 3 (uint (data ! 7) AND 0x7F) OR drop_bit 5 (uint (data ! 8));
                  speed =
                    (if airspeed \<noteq> 0 then
                       (let airspeed = airspeed - 1
                        in if subtype = 4 then airspeed * 4 else airspeed)
                     else 0);
                  heading =
                    (if data ! 5 AND 0x04 \<noteq> 0 then
                       (let hdgRaw = push_bit 8 (uint (data ! 5) AND 0x03) OR uint (data ! 6)
                        in (hdgRaw * 360) sdiv 1024)
                     else 0)
              in (speed, heading, vertRate, True)
            else (0, 0, 0, False))"

section \<open>Messages and the Mode S decoder (part 002)\<close>

record Message =
  msg_DF :: int
  msg_CA :: int
  msg_CF :: int
  msg_FS :: int
  msg_ModeA :: int
  msg_ICAO :: uint32
  msg_TypeCode :: int
  msg_SubType :: int
  msg_Flight :: string
  msg_Altitude :: int
  msg_Speed :: int
  msg_Heading :: int
  msg_VertRate :: int
  msg_Lat :: real
  msg_Lon :: real
  msg_RawLat :: int
  msg_RawLon :: int
  msg_OddFlag :: bool
  msg_OnGround :: bool
  msg_SignalLevel :: byte
  msg_Timestamp :: Time
  msg_CRC :: uint32
  msg_IID :: int
  msg_Valid :: bool

text \<open>Go's zero value of a \<open>Message\<close>: what a composite literal leaves unmentioned.\<close>

definition Message_zero :: Message where
  "Message_zero =
     \<lparr>msg_DF = 0, msg_CA = 0, msg_CF = 0, msg_FS = 0, msg_ModeA = 0, msg_ICAO = 0,
      msg_TypeCode = 0, msg_SubType = 0, msg_Flight = [], msg_Altitude = 0, msg_Speed = 0,
      msg_Heading = 0, msg_VertRate = 0, msg_Lat = 0, msg_Lon = 0, msg_RawLat = 0,
      msg_RawLon = 0, msg_OddFlag = False, msg_OnGround = False, msg_SignalLevel = 0,
      msg_Timestamp = 0, msg_CRC = 0, msg_IID = 0, msg_Valid = False\<rparr>"

text \<open>\<open>decodeAC13Field\<close>, \<open>decodeID13Field\<close>, \<open>decodeGroundMovement\<close> (part 002).\<close>

definition decodeAC13Field :: "int \<Rightarrow> int" where
  "decodeAC13Field ac13Field =
     (if ac13Field = 0 then 0
      else
        let mBit = ac13Field AND 0x0040 in
        if mBit = 0 then
          (let qBit = ac13Field AND 0x0010 in
           if qBit \<noteq> 0 then
             (let n = (drop_bit 2 (ac13Field AND 0x1F80) OR drop_bit 1 (ac13Field AND 0x0020))
                        OR (ac13Field AND 0x000F)
              in (n * 25) - 1000)
           else gillhamToAltitude ac13Field)
        else 0)"

definition decodeID13Field :: "int \<Rightarrow> int" where
  "decodeID13Field id13Field =
     (let hex = 0;
          hex = (if id13Field AND 0x1000 \<noteq> 0 then hex OR 0x0010 else hex);
          hex = (if id13Field AND 0x0800 \<noteq> 0 then hex OR 0x1000 else hex);
          hex = (if id13Field AND 0x0400 \<noteq> 0 then hex OR 0x0020 else hex);
          hex = (if id13Field AND 0x0200 \<noteq> 0 then hex OR 0x2000 else hex);
          hex = (if id13Field AND 0x0100 \<noteq> 0 then hex OR 0x0040 else hex);
          hex = (if id13Field AND 0x0080 \<noteq> 0 then hex OR 0x4000 else hex);
          hex = (if id13Field AND 0x0020 \<noteq> 0 then hex OR 0x0100 else hex);
          hex = (if id13Field AND 0x0010 \<noteq> 0 then hex OR 0x0001 else hex);
          hex = (if id13Field AND 0x0008 \<noteq> 0 then hex OR 0x0200 else hex);
          hex = (if id13Field AND 0x0004 \<noteq> 0 then hex OR 0x0002 else hex);
          hex = (if id13Field AND 0x0002 \<noteq> 0 then hex OR 0x0400 else hex);
          hex = (if id13Field AND 0x0001 \<noteq> 0 then hex OR 0x0004 else hex)
      in hex)"

definition decodeGroundMovement :: "int \<Rightarrow> int" where
  "decodeGroundMovement movement =
     (if movement \<le> 0 \<or> movement \<ge> 125 then 0
      else if movement > 123 then 199
      else if movement > 108 then ((movement - 108) * 5) + 100
      else if movement > 93 then ((movement - 93) * 2) + 70
      else if movement > 38 then (movement - 38) + 15
      else if movement > 12 then drop_bit 1 (movement - 11) + 2
      else if movement > 8 then drop_bit 2 (movement - 6) + 1
      else 0)"

text \<open>
  The raw CPR fields and the vertical rate, read the same way by several branches of
  \<open>DecodeMessage\<close> (and, for the CPR fields, by \<open>processModeS\<close>).
\<close>

definition rawLat_of :: "byte list \<Rightarrow> uint32" where
  "rawLat_of data =
     (push_bit 15 (ucast (data ! 6 AND 0x03)) OR push_bit 7 (ucast (data ! 7)))
       OR drop_bit 1 (ucast (data ! 8))"

definition rawLon_of :: "byte list \<Rightarrow> uint32" where
  "rawLon_of data =
     (push_bit 16 (ucast (data ! 8 AND 0x01)) OR push_bit 8 (ucast (data ! 9)))
       OR ucast (data ! 10)"

definition vertRate_of :: "byte list \<Rightarrow> Message \<Rightarrow> Message" where
  "vertRate_of data msg =
     (let vRateSign = uint (drop_bit 3 (data ! 8 AND 0x08));
          vRateData = uint (push_bit 6 (ucast (data ! 8 AND 0x07) :: uint32)
                              OR drop_bit 2 (ucast (data ! 9)))
      in if vRateData \<noteq> 0 then
           (let vRate = (vRateData - 1) * 64;
                vRate = (if vRateSign \<noteq> 0 then - vRate else vRate)
            in msg\<lparr>msg_VertRate := vRate\<rparr>)
         else msg)"

text \<open>
  The type-code switch of \<open>DecodeMessage\<close>, for a payload of at least 14 bytes, one
  definition for each case of the switch: surface position, airborne position, and the
  two families of velocity subtypes.
\<close>

definition decodeSurfacePosition :: "byte list \<Rightarrow> Message \<Rightarrow> Message" where
  "decodeSurfacePosition data msg =
     (let msg = msg\<lparr>msg_OnGround := True\<rparr>;
          msg = msg\<lparr>msg_RawLat := uint (rawLat_of data)\<rparr>;
          msg = msg\<lparr>msg_RawLon := uint (rawLon_of data)\<rparr>;
          msg = msg\<lparr>msg_OddFlag := (data ! 6 AND 0x04 \<noteq> 0)\<rparr>;
          movement = uint (push_bit 4 (ucast (data ! 4 AND 0x07) :: uint32)
                             OR drop_bit 4 (ucast (data ! 5)));
          msg = (if movement > 0 \<and> movement < 125
                 then msg\<lparr>msg_Speed := decodeGroundMovement movement\<rparr> else msg)
      in if data ! 5 AND 0x08 \<noteq> 0 then
           (let hdg = drop_bit 4 (uint ((push_bit 4 (ucast (data ! 5 AND 0x07) :: uint32)
                                          OR drop_bit 4 (ucast (data ! 6))) * 45))
            in msg\<lparr>msg_Heading := hdg\<rparr>)
         else msg)"

definition decodeAirbornePosition :: "byte list \<Rightarrow> Message \<Rightarrow> Message" where
  "decodeAirbornePosition data msg =
     (let msg = msg\<lparr>msg_Altitude :=
                   decodeAC12Field (uint (push_bit 4 (ucast (data ! 5) :: uint32)
                                            OR drop_bit 4 (ucast (data ! 6))))\<rparr>;
          msg = msg\<lparr>msg_RawLat := uint (rawLat_of data)\<rparr>;
          msg = msg\<lparr>msg_RawLon := uint (rawLon_of data)\<rparr>
      in msg\<lparr>msg_OddFlag := (data ! 6 AND 0x04 \<noteq> 0)\<rparr>)"

text \<open>
  Subtypes 1 and 2: the east-west and north-south components, with their direction and
  the supersonic multiplier applied.
\<close>

definition velocityComponents :: "byte list \<Rightarrow> int \<Rightarrow> int \<times> int" where
  "velocityComponents data subtype =
     (let ewSign = drop_bit 2 (data ! 5 AND 0x04);
          ewVel = uint (push_bit 8 (ucast (data ! 5 AND 0x03) :: uint32) OR ucast (data ! 6));
          nsSign = drop_bit 7 (data ! 7 AND 0x80);
          nsVel = uint (push_bit 3 (ucast (data ! 7 AND 0x7F) :: uint32)
                          OR drop_bit 5 (ucast (data ! 8)));
          ewVel = (if ewVel > 0
                   then (let ewVel = ewVel - 1 in if ewSign \<noteq> 0 then - ewVel else ewVel)
                   else ewVel);
          nsVel = (if nsVel > 0
                   then (let nsVel = nsVel - 1 in if nsSign \<noteq> 0 then - nsVel else nsVel)
                   else nsVel);
          ewVel = (if subtype = 2 then ewVel * 4 else ewVel);
          nsVel = (if subtype = 2 then nsVel * 4 else nsVel)
      in (ewVel, nsVel))"

definition decodeGroundSpeed :: "byte list \<Rightarrow> int \<Rightarrow> Message \<Rightarrow> Message" where
  "decodeGroundSpeed data subtype msg =
     (case velocityComponents data subtype of
        (ewVel, nsVel) \<Rightarrow>
          let msg =
                (if ewVel \<noteq> 0 \<or> nsVel \<noteq> 0 then
                   (let msg = msg\<lparr>msg_Speed := int_Sqrt (ewVel * ewVel + nsVel * nsVel)\<rparr>;
                        msg = msg\<lparr>msg_Heading :=
                                go_Round (go_Atan2 (of_int ewVel) (of_int nsVel) * 180 / pi)\<rparr>
                    in if msg_Heading msg < 0
                       then msg\<lparr>msg_Heading := msg_Heading msg + 360\<rparr> else msg)
                 else msg)
          in vertRate_of data msg)"

definition decodeAirspeed :: "byte list \<Rightarrow> int \<Rightarrow> Message \<Rightarrow> Message" where
  "decodeAirspeed data subtype msg =
     (let airspeed = uint (push_bit 3 (ucast (data ! 7 AND 0x7F) :: uint32)
                             OR drop_bit 5 (ucast (data ! 8)));
          msg = (if airspeed > 0 then
                   (let airspeed = airspeed - 1;
                        airspeed = (if subtype = 4 then airspeed * 4 else airspeed)
                    in msg\<lparr>msg_Speed := airspeed\<rparr>)
                 else msg);
          msg = (if data ! 5 AND 0x04 \<noteq> 0 then
                   (let hdg = drop_bit 7 (uint ((push_bit 8 (ucast (data ! 5 AND 0x03) :: uint32)
                                                  OR ucast (data ! 6)) * 45))
                    in msg\<lparr>msg_Heading := hdg\<rparr>)
                 else msg)
      in vertRate_of data msg)"

definition decodeTypeCode :: "byte list \<Rightarrow> Message \<Rightarrow> Message" where
  "decodeTypeCode data msg =
     (if msg_TypeCode msg \<ge> 1 \<and> msg_TypeCode msg \<le> 4 then
        msg\<lparr>msg_Flight := decodeAircraftID (take 6 (drop 5 data))\<rparr>
      else if msg_TypeCode msg \<ge> 5 \<and> msg_TypeCode msg \<le> 8 then
        decodeSurfacePosition data msg
      else if msg_TypeCode msg \<ge> 9 \<and> msg_TypeCode msg \<le> 18 then
        decodeAirbornePosition data msg
      else if msg_TypeCode msg = 19 then
        (let subtype = uint (data ! 4 AND 0x07) in
         if subtype = 1 \<or> subtype = 2 then decodeGroundSpeed data subtype msg
         else if subtype = 3 \<or> subtype = 4 then decodeAirspeed data subtype msg
         else msg)
      else msg)"

text \<open>The 24-bit ICAO address of bytes 1 to 3.\<close>

definition icao_of :: "byte list \<Rightarrow> uint32" where
  "icao_of data =
     (push_bit 16 (ucast (data ! 1)) OR push_bit 8 (ucast (data ! 2))) OR ucast (data ! 3)"

text \<open>\<open>DecodeMessage\<close> (part 002); the result \<open>nil\<close> is \<open>None\<close>.\<close>

definition DecodeMessage :: "byte list \<Rightarrow> Time \<Rightarrow> Message option" where
  "DecodeMessage data timestamp =
     (if length data < 2 then None
      else
        let df = uint (drop_bit 3 (data ! 0));
            msg = Message_zero\<lparr>msg_DF := df, msg_Timestamp := timestamp, msg_Valid := True\<rparr>
        in
          if df = 0 \<or> df = 16 then
            (if length data < 2 then None
             else Some (msg\<lparr>msg_OnGround := (data ! 0 AND 0x04 \<noteq> 0)\<rparr>))
          else if df = 4 \<or> df = 20 then
            (if length data < 4 then None
             else
               let msg = msg\<lparr>msg_FS := uint (data ! 0 AND 0x07)\<rparr>;
                   msg = msg\<lparr>msg_Altitude :=
                            decodeAC13Field (push_bit 8 (uint (data ! 2)) OR uint (data ! 3))\<rparr>
               in Some (msg\<lparr>msg_OnGround := (msg_FS msg AND 0x01 \<noteq> 0)\<rparr>))
          else if df = 5 \<or> df = 21 then
            (if length data < 4 then None
             else
               let msg = msg\<lparr>msg_FS := uint (data ! 0 AND 0x07)\<rparr>;
                   msg = msg\<lparr>msg_ModeA :=
                            decodeID13Field (push_bit 8 (uint (data ! 2)) OR uint (data ! 3))\<rparr>
               in Some (msg\<lparr>msg_OnGround := (msg_FS msg AND 0x01 \<noteq> 0)\<rparr>))
          else if df = 11 then
            (if length data < 4 then None
             else
               let msg = msg\<lparr>msg_CA := uint (data ! 0 AND 0x07)\<rparr>;
                   msg = msg\<lparr>msg_ICAO := icao_of data\<rparr>
               in Some (if msg_CA msg = 4 then msg\<lparr>msg_OnGround := False\<rparr>
                        else if msg_CA msg = 5 then msg\<lparr>msg_OnGround := True\<rparr>
                        else msg))
          else if df = 17 \<or> df = 18 then
            (if length data < 14 then None
             else
               let msg =
                     (if df = 17 then
                        (let msg = msg\<lparr>msg_CA := uint (data ! 0 AND 0x07)\<rparr>
                         in if msg_CA msg = 4 then msg\<lparr>msg_OnGround := True\<rparr>
                            else if msg_CA msg = 5 then msg\<lparr>msg_OnGround := False\<rparr>
                            else msg)
                      else msg\<lparr>msg_CF := uint (data ! 0 AND 0x07)\<rparr>);
                   msg = msg\<lparr>msg_ICAO := icao_of data\<rparr>;
                   msg = msg\<lparr>msg_TypeCode := uint (drop_bit 3 (data ! 4))\<rparr>;
                   msg = msg\<lparr>msg_SubType := uint (data ! 4 AND 0x07)\<rparr>
               in Some (decodeTypeCode data msg))
          else Some msg)"

section \<open>The application's message handler (app.go)\<close>

text \<open>
  A run-time panic ends the program; a function that can panic returns \<open>Inl\<close> of the
  panic, and \<open>Inr\<close> of its result otherwise.
\<close>

datatype panic = IndexOutOfRange | SliceBoundsOutOfRange

text \<open>
  \<open>time.Now().UnixNano() / int64(time.Millisecond)\<close>: milliseconds since 1970, the
  zero instant of \<open>Time\<close> being the start of year 1.
\<close>

definition unixEpoch :: Time where
  "unixEpoch = 62135596800 * 1000000000"

definition UnixMilli :: "Time \<Rightarrow> int" where
  "UnixMilli t = (t - unixEpoch) sdiv 1000000"

text \<open>
  The fields of \<open>App\<close> that \<open>processModeS\<close> reads or writes: the aircraft map, the
  configured trail length, and the two statistics accumulators.
\<close>

record App =
  app_aircraft :: AircraftMap_map
  app_TrailLength :: int
  app_msgRateAcc :: real
  app_sigAcc :: real

text \<open>
  The trail append of \<open>processModeS\<close> (lines 205 to 215): when the trail has reached the
  configured length its first entry is sliced off, which panics on an empty trail.
\<close>

definition trail_append :: "int \<Rightarrow> Position list \<Rightarrow> Position \<Rightarrow> panic + Position list" where
  "trail_append trailLength trail pos =
     (if int (length trail) \<ge> trailLength then
        (if length trail < 1 then Inl SliceBoundsOutOfRange
         else Inr (drop 1 trail @ [pos]))
      else Inr (trail @ [pos]))"

fun trail_append_many :: "int \<Rightarrow> Position list \<Rightarrow> Position list \<Rightarrow> panic + Position list" where
  "trail_append_many trailLength [] trail = Inr trail"
| "trail_append_many trailLength (pos # ps) trail =
     (case trail_append trailLength trail pos of
        Inl e \<Rightarrow> Inl e
      | Inr trail' \<Rightarrow> trail_append_many trailLength ps trail')"

text \<open>
  The resolution step of \<open>processModeS\<close> (lines 194 to 218), on the aircraft record:
  both CPR times present and at most 10000 ms apart, then \<open>DecodeCPRPosition\<close> of map.go,
  and on success the position, its time and the trail are updated.
\<close>

definition resolvePosition :: "Time \<Rightarrow> int \<Rightarrow> bool \<Rightarrow> Aircraft_map \<Rightarrow> panic + Aircraft_map" where
  "resolvePosition now trailLength odd' aircraft =
     (if EvenCPRTime_m aircraft > 0 \<and> OddCPRTime_m aircraft > 0 then
        if \<bar>of_int (EvenCPRTime_m aircraft - OddCPRTime_m aircraft) :: real\<bar> \<le> 10000 then
          (case DecodeCPRPosition_map (EvenCPRLat_m aircraft) (EvenCPRLon_m aircraft)
                  (OddCPRLat_m aircraft) (OddCPRLon_m aircraft) odd' of
             None \<Rightarrow> Inr aircraft
           | Some (lat, lon) \<Rightarrow>
               let aircraft = aircraft\<lparr>Lat_m := lat, Lon_m := lon, SeenLatLon_m := now\<rparr>
               in case trail_append trailLength (Trail_m aircraft)
                         \<lparr>pos_Lat = lat, pos_Lon = lon, pos_Altitude = Altitude_m aircraft,
                          pos_Heading = Heading_m aircraft, pos_Timestamp = now\<rparr> of
                    Inl e \<Rightarrow> Inl e
                  | Inr trail \<Rightarrow> Inr (aircraft\<lparr>Trail_m := trail\<rparr>))
        else Inr aircraft
      else Inr aircraft)"

text \<open>
  The airborne-position branch of \<open>processModeS\<close> (lines 172 to 218). The bytes 6 to 10
  are indexed without a length check, which panics on a payload of fewer than 11 bytes.
\<close>

definition airbornePosition :: "Time \<Rightarrow> int \<Rightarrow> byte list \<Rightarrow> Aircraft_map \<Rightarrow> panic + Aircraft_map" where
  "airbornePosition now trailLength data aircraft =
     (let alt = DecodeAltitude data;
          aircraft = (if alt \<noteq> 0 then aircraft\<lparr>Altitude_m := alt\<rparr> else aircraft)
      in
        if length data < 11 then Inl IndexOutOfRange
        else
          let cprLat = rawLat_of data;
              cprLon = rawLon_of data;
              odd' = (data ! 6 AND 0x04 \<noteq> 0);
              aircraft =
                (if odd'
                 then aircraft\<lparr>OddCPRLat_m := uint cprLat, OddCPRLon_m := uint cprLon,
                        OddCPRTime_m := UnixMilli now\<rparr>
                 else aircraft\<lparr>EvenCPRLat_m := uint cprLat, EvenCPRLon_m := uint cprLon,
                        EvenCPRTime_m := UnixMilli now\<rparr>)
          in resolvePosition now trailLength odd' aircraft)"

text \<open>
  \<open>processModeS\<close> (app.go). \<open>now\<close> stands for every reading of \<open>time.Now()\<close> made
  during the call. The payload is a slice whose capacity is its length, so that
  \<open>data[5:11]\<close> panics on fewer than 11 bytes. The aircraft is reached through its
  pointer: the updated record is written back to the heap.
\<close>

definition processModeS :: "Time \<Rightarrow> byte list \<Rightarrow> 64 word \<Rightarrow> App \<Rightarrow> panic + App" where
  "processModeS now data timestamp a =
     (if length data < 4 then Inr a
      else
        let df = drop_bit 3 (data ! 0) in
        if df \<noteq> 17 \<and> df \<noteq> 18 then Inr a
        else
          let icao = icao_of data;
              mm = Message_zero\<lparr>msg_DF := uint df, msg_ICAO := icao, msg_Timestamp := now,
                     msg_SignalLevel := 100\<rparr>;
              (aircraft, am) = GetOrCreate_map now icao (app_aircraft a);
              obj = heap_m am aircraft;
              r =
                (if length data \<ge> 5 then
                   let metype = drop_bit 3 (data ! 4) in
                   if metype \<ge> 1 \<and> metype \<le> 4 then
                     (if length data < 11 then Inl SliceBoundsOutOfRange
                      else
                        let callsign = DecodeCallsign (take 6 (drop 5 data))
                        in Inr (if callsign \<noteq> [] then obj\<lparr>Flight_m := callsign\<rparr> else obj))
                   else if metype \<ge> 9 \<and> metype \<le> 18 then
                     airbornePosition now (app_TrailLength a) data obj
                   else if metype = 19 then
                     (case DecodeVelocity data of
                        (speed, heading, vertRate, ok) \<Rightarrow>
                          Inr (if ok
                               then obj\<lparr>Speed_m := speed, Heading_m := heading,
                                      VertRate_m := vertRate\<rparr>
                               else obj))
                   else Inr obj
                 else Inr obj)
          in
            case r of
              Inl e \<Rightarrow> Inl e
            | Inr obj \<Rightarrow>
                let obj = obj\<lparr>Seen_m := now\<rparr>;
                    obj = obj\<lparr>SignalLevel_m :=
                            (SignalLevel_m obj)[nat (Messages_m obj smod 8) := msg_SignalLevel mm]\<rparr>;
                    obj = obj\<lparr>Messages_m := Messages_m obj + 1\<rparr>
                in Inr (a\<lparr>app_aircraft := am\<lparr>heap_m := (heap_m am)(aircraft := obj)\<rparr>,
                          app_msgRateAcc := app_msgRateAcc a + 1,
                          app_sigAcc := app_sigAcc a + of_nat (unat (msg_SignalLevel mm))\<rparr>))"

section \<open>The Beast frame encoder (part 000) and the frame decoder\<close>

definition EscapeChar :: byte where
  "EscapeChar = 0x1A"

definition ModeAC :: byte where
  "ModeAC = 0x31"

definition ModeShort :: byte where
  "ModeShort = 0x32"

definition ModeLong :: byte where
  "ModeLong = 0x33"

text \<open>
  \<open>encodeBeastMessage\<close> (part 000). The first loop appends the six low bytes of the
  timestamp, most significant first, the last loop the payload; a byte equal to the
  escape byte is appended twice.
\<close>

fun encode_timestamp :: "nat \<Rightarrow> 64 word \<Rightarrow> byte list \<Rightarrow> byte list" where
  "encode_timestamp 0 timestamp buf = buf"
| "encode_timestamp (Suc i) timestamp buf =
     (let b = ucast (drop_bit (8 * i) timestamp AND 0xFF) :: byte;
          buf = buf @ [b];
          buf = (if b = EscapeChar then buf @ [b] else buf)
      in encode_timestamp i timestamp buf)"

fun encode_data :: "byte list \<Rightarrow> byte list \<Rightarrow> byte list" where
  "encode_data [] buf = buf"
| "encode_data (b # bs) buf =
     (let buf = buf @ [b];
          buf = (if b = EscapeChar then buf @ [b] else buf)
      in encode_data bs buf)"

definition encodeBeastMessage :: "byte \<Rightarrow> byte list \<Rightarrow> 64 word \<Rightarrow> byte \<Rightarrow> byte list" where
  "encodeBeastMessage msgType data timestamp signalLevel =
     (let buf = [];
          buf = buf @ [EscapeChar, msgType];
          buf = encode_timestamp 6 timestamp buf;
          buf = buf @ [signalLevel];
          buf = (if signalLevel = EscapeChar then buf @ [signalLevel] else buf);
          buf = encode_data data buf
      in buf)"

text \<open>
  Modelled from the spec: the frame decoder (package \<open>beast\<close>, used by app.go through
  \<open>beast.NewDecoder\<close> and \<open>ReadMessage\<close>) is not among the sources. Section 4.1 of the
  specification: a frame begins with the escape byte; the next byte selects the kind,
  which fixes the payload length (2, 7 or 14 bytes); then follow a 6-byte big-endian
  timestamp, a signal-level byte and the payload, in which a doubled escape byte stands
  for one escape byte; a frame cut short is a decode error.
\<close>

datatype kind = ShortAC | ShortModeS | LongModeS

record Frame =
  frame_kind :: kind
  frame_timestamp :: "64 word"
  frame_signal_level :: byte
  frame_payload :: "byte list"

datatype FramingError = Truncated | BadHeader | BadEscape

definition kind_byte :: "kind \<Rightarrow> byte" where
  "kind_byte k = (case k of ShortAC \<Rightarrow> ModeAC | ShortModeS \<Rightarrow> ModeShort | LongModeS \<Rightarrow> ModeLong)"

definition kind_of_byte :: "byte \<Rightarrow> kind option" where
  "kind_of_byte b =
     (if b = ModeAC then Some ShortAC
      else if b = ModeShort then Some ShortModeS
      else if b = ModeLong then Some LongModeS
      else None)"

definition payload_length :: "kind \<Rightarrow> nat" where
  "payload_length k = (case k of ShortAC \<Rightarrow> 2 | ShortModeS \<Rightarrow> 7 | LongModeS \<Rightarrow> 14)"

text \<open>Reading \<open>n\<close> data bytes of the stream, each doubled escape byte collapsed to one.\<close>

fun read_unescaped :: "nat \<Rightarrow> byte list \<Rightarrow> FramingError + (byte list \<times> byte list)" where
  "read_unescaped 0 stream = Inr ([], stream)"
| "read_unescaped (Suc n) [] = Inl Truncated"
| "read_unescaped (Suc n) (b # stream) =
     (if b = EscapeChar then
        (case stream of
           [] \<Rightarrow> Inl Truncated
         | b' # stream' \<Rightarrow>
             if b' = EscapeChar then
               (case read_unescaped n stream' of
                  Inl e \<Rightarrow> Inl e
                | Inr (bs, rest) \<Rightarrow> Inr (b # bs, rest))
             else Inl BadEscape)
      else
        (case read_unescaped n stream of
           Inl e \<Rightarrow> Inl e
         | Inr (bs, rest) \<Rightarrow> Inr (b # bs, rest)))"

text \<open>The big-endian value of the timestamp bytes.\<close>

definition be_value :: "byte list \<Rightarrow> 64 word" where
  "be_value bs = foldl (\<lambda>acc b. push_bit 8 acc OR ucast b) 0 bs"

definition decode_frame :: "byte list \<Rightarrow> FramingError + (Frame \<times> byte list)" where
  "decode_frame stream =
     (case stream of
        [] \<Rightarrow> Inl Truncated
      | [b] \<Rightarrow> (if b = EscapeChar then Inl Truncated else Inl BadHeader)
      | b # t # stream' \<Rightarrow>
          if b \<noteq> EscapeChar then Inl BadHeader
          else
            (case kind_of_byte t of
               None \<Rightarrow> Inl BadHeader
             | Some k \<Rightarrow>
                 (case read_unescaped (6 + 1 + payload_length k) stream' of
                    Inl e \<Rightarrow> Inl e
                  | Inr (bs, rest) \<Rightarrow>
                      Inr (\<lparr>frame_kind = k,
                            frame_timestamp = be_value (take 6 bs),
                            frame_signal_level = bs ! 6,
                            frame_payload = drop 7 bs\<rparr>, rest))))"

text \<open>Encoding a frame: the encoder of part 000 applied to the frame's fields.\<close>

definition encode_frame :: "Frame \<Rightarrow> byte list" where
  "encode_frame f =
     encodeBeastMessage (kind_byte (frame_kind f)) (frame_payload f) (frame_timestamp f)
       (frame_signal_level f)"

section \<open>Example stores\<close>

text \<open>
  \<open>NewAircraftMap\<close> (part 002 and map.go): an empty map. Nothing is allocated yet; the
  heap's content at unallocated addresses is left unspecified.
\<close>

definition NewAircraftMap :: AircraftMap where
  "NewAircraftMap = \<lparr>am_data = Map.empty, am_heap = (\<lambda>_. undefined), am_nxt = 0\<rparr>"

definition NewAircraftMap_map :: AircraftMap_map where
  "NewAircraftMap_map = \<lparr>data_m = Map.empty, heap_m = (\<lambda>_. undefined), nxt_m = 0\<rparr>"

text \<open>
  Two tracks, for the ICAO addresses 1 and 2, created 5 and 20 seconds after the zero
  instant.
\<close>

definition two_tracks :: AircraftMap where
  "two_tracks = snd (GetOrCreate 20000000000 2 (snd (GetOrCreate 5000000000 1 NewAircraftMap)))"

definition two_tracks_map :: AircraftMap_map where
  "two_tracks_map =
     snd (GetOrCreate_map 20000000000 2 (snd (GetOrCreate_map 5000000000 1 NewAircraftMap_map)))"

text \<open>
  A long Mode S frame whose signal level and payload contain the escape byte; its
  timestamp is the parameter.
\<close>

definition example_frame :: "64 word \<Rightarrow> Frame" where
  "example_frame ts =
     \<lparr>frame_kind = LongModeS, frame_timestamp = ts, frame_signal_level = 0x1A,
      frame_payload = [0x8D, 0x48, 0x40, 0xD6, 0x1A, 0x2C, 0xC3, 0x71, 0xC3, 0x2C, 0xE0,
                       0x1A, 0x1A, 0x00]\<rparr>"

text \<open>An application state with no aircraft and the default trail length of 50.\<close>

definition new_app :: App where
  "new_app = \<lparr>app_aircraft = NewAircraftMap_map, app_TrailLength = 50,
              app_msgRateAcc = 0, app_sigAcc = 0\<rparr>"

text \<open>
  The two airborne-position frames of the worked example, for the ICAO address 40621D:
  the even one carries the raw latitude 93000 and longitude 51372, the odd one 74158 and
  50194. \<open>zero_trail_app\<close> is an application state with no aircraft and a configured
  trail length of 0, as the flag \<open>--traillen 0\<close> sets it.
\<close>

definition even_frame :: "byte list" where
  "even_frame = [0x8D, 0x40, 0x62, 0x1D, 0x58, 0xC3, 0x82, 0xD6, 0x90, 0xC8, 0xAC, 0x28, 0x63, 0xA7]"

definition odd_frame :: "byte list" where
  "odd_frame = [0x8D, 0x40, 0x62, 0x1D, 0x58, 0xC3, 0x86, 0x43, 0x5C, 0xC4, 0x12, 0x69, 0x2A, 0xD6]"

definition zero_trail_app :: App where
  "zero_trail_app = new_app\<lparr>app_TrailLength := 0\<rparr>"

section \<open>Altitude: proofs\<close>

lemma and_0FE0_000F_int:
  "drop_bit 1 (f AND 0x0FE0) OR (f AND 0x000F)
     = push_bit 4 (take_bit 7 (drop_bit 5 f)) OR take_bit 4 (f::int)"
proof -
  have c1: "(0x0FE0::int) = push_bit 5 (mask 7)"
    by (simp add: mask_eq_exp_minus_1)
  have c2: "(0x000F::int) = mask 4"
    by (simp add: mask_eq_exp_minus_1)
  show ?thesis
    unfolding c1 c2 by (rule bit_eqI) (auto simp: bit_simps)
qed

lemma removeQ_bits:
  assumes "0 \<le> f" "f < 4096"
  shows "drop_bit 1 (f AND 0x0FE0) OR (f AND 0x000F) = removeQ f"
proof -
  have a: "take_bit 7 (drop_bit 5 f) = f div 32"
    using assms by (simp add: take_bit_eq_mod drop_bit_eq_div)
  have b: "push_bit 4 (f div 32) OR take_bit 4 f = push_bit 4 (f div 32) + take_bit 4 f"
    by (rule disjunctive_add [symmetric]) (auto simp: bit_simps)
  show ?thesis
    unfolding and_0FE0_000F_int a b removeQ_def
    by (simp add: push_bit_eq_mult take_bit_eq_mod)
qed

lemma qBit_bits: "(f::int) AND 0x10 \<noteq> 0 \<longleftrightarrow> qBit_set f"
proof -
  have "f AND 0x10 \<noteq> 0 \<longleftrightarrow> bit f 4"
    using and_exp_eq_0_iff_not_bit [of f 4] by simp
  also have "\<dots> \<longleftrightarrow> odd (f div 16)"
    by (simp add: bit_iff_odd)
  also have "\<dots> \<longleftrightarrow> qBit_set f"
    by (simp add: qBit_set_def odd_iff_mod_2_eq_one)
  finally show ?thesis .
qed

lemma decodeAC12Field_Q:
  assumes "0 \<le> f" "f < 4096" "qBit_set f"
  shows "decodeAC12Field f = removeQ f * 25 - 1000"
proof -
  have nz: "f AND 0x10 \<noteq> 0"
    using assms(3) by (simp only: qBit_bits)
  then have "f \<noteq> 0"
    by auto
  with nz have "decodeAC12Field f
      = (drop_bit 1 (f AND 0x0FE0) OR (f AND 0x000F)) * 25 - 1000"
    by (simp only: decodeAC12Field_def Let_def if_False if_True simp_thms)
  then show ?thesis
    by (simp only: removeQ_bits [OF assms(1,2)])
qed

lemma decodeAC12Field_noQ:
  assumes "\<not> qBit_set f"
  shows "decodeAC12Field f = f * 100"
proof -
  have "f AND 0x10 = 0"
    using assms qBit_bits [of f] by blast
  then show ?thesis
    by (simp add: decodeAC12Field_def Let_def gillhamToAltitude_def)
qed

lemma ac12Field_of_take: "take_bit 12 (ac12Field_of data) = ac12Field_of data"
proof -
  have c1: "(0x1F::16 word) = mask 5"
    by (simp add: mask_eq_exp_minus_1)
  have "take_bit 12 (push_bit 7 ((ucast a :: 16 word) AND mask 5) OR drop_bit 1 ((ucast b :: 16 word) AND y))
      = push_bit 7 ((ucast a :: 16 word) AND mask 5) OR drop_bit 1 ((ucast b :: 16 word) AND y)"
    for a b :: byte and y
    by (rule bit_eqI) (auto simp: bit_simps dest: bit_imp_le_length)
  then show ?thesis
    unfolding ac12Field_of_def c1 .
qed

lemma ac12Field_of_bound: "uint (ac12Field_of data) < 4096"
proof -
  have "uint (take_bit 12 (ac12Field_of data)) < 2 ^ 12"
    by (simp only: unsigned_take_bit_eq take_bit_int_less_exp)
  then show ?thesis
    by (simp add: ac12Field_of_take)
qed

lemma DecodeAltitude_Q:
  assumes "7 \<le> length data" "qBit_set (uint (ac12Field_of data))"
  shows "DecodeAltitude data = removeQ (uint (ac12Field_of data)) * 25 - 1000"
proof -
  let ?w = "ac12Field_of data"
  have "uint ?w AND 0x10 \<noteq> 0"
    using assms(2) by (simp only: qBit_bits)
  then have "uint (?w AND 0x10) \<noteq> 0"
    by (simp add: uint_and)
  then have q: "?w AND 0x10 \<noteq> 0"
    by auto
  have "uint (drop_bit 1 (?w AND 0x0FE0) OR (?w AND 0x000F))
      = drop_bit 1 (uint ?w AND 0x0FE0) OR (uint ?w AND 0x000F)"
    by (simp add: uint_or uint_and unsigned_drop_bit_eq bintr_uint)
  also have "\<dots> = removeQ (uint ?w)"
    by (rule removeQ_bits) (simp_all add: ac12Field_of_bound)
  finally have n: "uint (drop_bit 1 (?w AND 0x0FE0) OR (?w AND 0x000F)) = removeQ (uint ?w)" .
  have "DecodeAltitude data = uint (drop_bit 1 (?w AND 0x0FE0) OR (?w AND 0x000F)) * 25 - 1000"
    using assms(1) q by (simp only: DecodeAltitude_def Let_def if_False if_True simp_thms not_less [symmetric])
  then show ?thesis
    by (simp only: n)
qed

lemma DecodeAltitude_noQ:
  assumes "\<not> qBit_set (uint (ac12Field_of data))"
  shows "DecodeAltitude data = 0"
proof -
  let ?w = "ac12Field_of data"
  have "uint ?w AND 0x10 = 0"
    using assms qBit_bits [of "uint ?w"] by blast
  then have "uint (?w AND 0x10) = 0"
    by (simp add: uint_and)
  then have "?w AND 0x10 = 0"
    by (simp only: uint_0_iff)
  then show ?thesis
    by (simp add: DecodeAltitude_def Let_def)
qed

lemma ac12Field_of_onto:
  assumes "0 \<le> f" "f < 4096"
  shows "\<exists>data. length data = 7 \<and> uint (ac12Field_of data) = f"
proof -
  define a :: byte where "a = word_of_int (f div 128)"
  define b :: byte where "b = word_of_int (2 * (f mod 128))"
  have "uint a = take_bit 8 (f div 128)"
    unfolding a_def by (simp only: uint_word_of_int_eq) simp
  then have ua: "uint a = f div 128"
    using assms by (simp add: take_bit_eq_mod)
  have "uint b = take_bit 8 (2 * (f mod 128))"
    unfolding b_def by (simp only: uint_word_of_int_eq) simp
  then have ub: "uint b = 2 * (f mod 128)"
    using assms by (simp add: take_bit_eq_mod)
  have m5: "(0x1F::int) = mask 5"
    by (simp add: mask_eq_exp_minus_1)
  have 1: "uint ((ucast a :: 16 word) AND 0x1F) = f div 128"
    using assms
    by (simp add: uint_and unsigned_ucast_eq ua m5 flip: take_bit_eq_mask)
       (simp add: take_bit_eq_mod)
  have 2: "uint (push_bit 7 ((ucast a :: 16 word) AND 0x1F)) = 128 * (f div 128)"
    using assms
    by (simp only: unsigned_push_bit_eq 1) (simp add: take_bit_eq_mod push_bit_eq_mult)
  have e: "(2 * (f mod 128)) AND 254 = 2 * (f mod 128)"
  proof -
    have "push_bit k (take_bit 7 f) AND push_bit k (mask 7) = push_bit k (take_bit 7 f)" for k
      by (rule bit_eqI) (auto simp: bit_simps)
    from this [of 1]
    have "push_bit 1 (take_bit 7 f) AND push_bit 1 (mask 7) = push_bit 1 (take_bit 7 f)" .
    moreover have "push_bit 1 (mask 7) = (254::int)"
      by (simp add: mask_eq_exp_minus_1)
    moreover have "push_bit 1 (take_bit 7 f) = 2 * (f mod 128)"
      by (simp add: take_bit_eq_mod push_bit_eq_mult)
    ultimately show ?thesis
      by (simp add: mult.commute)
  qed
  have 3: "uint (drop_bit 1 ((ucast b :: 16 word) AND 0xFE)) = f mod 128"
  proof -
    have t: "take_bit 16 (2 * (f mod 128)) = 2 * (f mod 128)"
      by (rule take_bit_int_eq_self) auto
    have "uint ((ucast b :: 16 word) AND 0xFE) = 2 * (f mod 128)"
      by (simp add: uint_and unsigned_ucast_eq ub e t)
    moreover have "uint (drop_bit 1 ((ucast b :: 16 word) AND 0xFE))
        = drop_bit 1 (take_bit 16 (uint ((ucast b :: 16 word) AND 0xFE)))"
      by (simp only: unsigned_drop_bit_eq) simp
    ultimately have "uint (drop_bit 1 ((ucast b :: 16 word) AND 0xFE))
        = drop_bit 1 (take_bit 16 (2 * (f mod 128)))"
      by (simp only:)
    then show ?thesis
      by (simp add: drop_bit_eq_div take_bit_eq_mod)
  qed
  have d: "128 * (f div 128) OR f mod 128 = 128 * (f div 128) + f mod 128"
  proof -
    have "push_bit 7 (f div 128) OR take_bit 7 f = push_bit 7 (f div 128) + take_bit 7 f"
      by (rule disjunctive_add [symmetric]) (auto simp: bit_simps)
    then show ?thesis
      by (simp add: push_bit_eq_mult take_bit_eq_mod mult.commute)
  qed
  have "uint (ac12Field_of [0, 0, 0, 0, 0, a, b])
      = uint (push_bit 7 ((ucast a :: 16 word) AND 0x1F))
          OR uint (drop_bit 1 ((ucast b :: 16 word) AND 0xFE))"
    by (simp add: ac12Field_of_def uint_or)
  also have "\<dots> = 128 * (f div 128) OR f mod 128"
    by (simp only: 2 3)
  also have "\<dots> = f"
    by (simp only: d) simp
  finally have "uint (ac12Field_of [0, 0, 0, 0, 0, a, b]) = f" .
  moreover have "length [0, 0, 0, 0, 0, a, b] = 7"
    by simp
  ultimately show ?thesis
    by blast
qed

text \<open>
  Claim C3 (as amended). For every 12-bit altitude field \<open>f\<close>: when the Q-bit (value
  16) is set, \<open>decodeAC12Field\<close> returns N * 25 - 1000 where N is the field with the
  Q-bit removed, and so does \<open>DecodeAltitude\<close> on the field it reads; every 12-bit
  value occurs as that field. When the Q-bit is clear \<open>DecodeAltitude\<close> returns 0,
  whereas \<open>decodeAC12Field\<close> returns the field times 100. The field with N = 100 and
  the Q-bit set is 212 and decodes to 1500 feet.
\<close>

theorem altitude_decode_Q_bit:
  "(0 \<le> f \<and> f < 4096 \<longrightarrow>
      (qBit_set f \<longrightarrow> decodeAC12Field f = removeQ f * 25 - 1000) \<and>
      (\<not> qBit_set f \<longrightarrow> decodeAC12Field f = f * 100) \<and>
      (\<exists>data. length data = 7 \<and> uint (ac12Field_of data) = f)) \<and>
   (7 \<le> length data \<longrightarrow>
      (let g = uint (ac12Field_of data) in
        0 \<le> g \<and> g < 4096 \<and>
        (qBit_set g \<longrightarrow> DecodeAltitude data = removeQ g * 25 - 1000) \<and>
        (\<not> qBit_set g \<longrightarrow> DecodeAltitude data = 0))) \<and>
   (qBit_set 212 \<and> removeQ 212 = 100 \<and> decodeAC12Field 212 = 1500)"
proof (intro conjI impI)
  assume f: "0 \<le> f \<and> f < 4096"
  show "qBit_set f \<Longrightarrow> decodeAC12Field f = removeQ f * 25 - 1000"
    using f by (simp add: decodeAC12Field_Q)
  show "\<not> qBit_set f \<Longrightarrow> decodeAC12Field f = f * 100"
    by (rule decodeAC12Field_noQ)
  show "\<exists>data. length data = 7 \<and> uint (ac12Field_of data) = f"
    using f by (simp add: ac12Field_of_onto)
next
  assume "7 \<le> length data"
  then show "let g = uint (ac12Field_of data) in
        0 \<le> g \<and> g < 4096 \<and>
        (qBit_set g \<longrightarrow> DecodeAltitude data = removeQ g * 25 - 1000) \<and>
        (\<not> qBit_set g \<longrightarrow> DecodeAltitude data = 0)"
    by (simp add: Let_def ac12Field_of_bound DecodeAltitude_Q DecodeAltitude_noQ)
next
  show "qBit_set 212" by (simp add: qBit_set_def)
  show "removeQ 212 = 100" by (simp add: removeQ_def)
  show "decodeAC12Field 212 = 1500" by (simp add: decodeAC12Field_def)
qed

theorem altitude_decode_Q_bit_witness:
  "decodeAC12Field 212 = 1500 \<and> decodeAC12Field 1 = 100
     \<and> DecodeAltitude [0, 0, 0, 0, 0, 1, 0xA8] = 1500
     \<and> DecodeAltitude [0, 0, 0, 0, 0, 0, 2] = 0"
  using altitude_decode_Q_bit [of 212 "[0, 0, 0, 0, 0, 1, 0xA8]"]
    altitude_decode_Q_bit [of 1 "[0, 0, 0, 0, 0, 0, 2]"]
  by (simp add: qBit_set_def removeQ_def ac12Field_of_def)

text \<open>
  The claim as first stated fails for \<open>decodeAC12Field\<close>: the field 1 has the Q-bit
  clear and decodes to 100, not 0.
\<close>

theorem altitude_Q_clear_counterexample:
  "(0::int) \<le> 1 \<and> (1::int) < 4096 \<and> (1::int) AND 0x10 = 0 \<and> decodeAC12Field 1 \<noteq> 0"
  by (simp add: decodeAC12Field_def gillhamToAltitude_def)

section \<open>The two NL functions\<close>

text \<open>
  Claim C5. There is a latitude in [-90, 90] at which the threshold chain of part 002 and
  the lookup table of map.go give different zone counts: at 52 degrees the former gives
  36 and the latter 49.
\<close>

theorem nl_implementations_differ:
  "\<exists>lat::real. - 90 \<le> lat \<and> lat \<le> 90 \<and> cprNLFunction lat \<noteq> cprNLFunction_map lat"
proof (intro exI conjI)
  show "cprNLFunction 52 \<noteq> cprNLFunction_map 52"
    by (simp add: cprNLFunction_def cprNLFunction_map_def go_Round_def nl_table_def NL_LOOKUP_TABLE_SIZE_def)
qed simp_all

section \<open>Callsign: proofs\<close>

lemma trim_trailing_snoc:
  "trim_trailing_spaces (xs @ [c]) = (if c = CHR '' '' then trim_trailing_spaces xs else xs @ [c])"
  by (simp add: trim_trailing_spaces_def)

lemma trim_loop_take:
  "i < int (length r) \<Longrightarrow> take (nat (trim_loop r i + 1)) r = trim_trailing_spaces (take (nat (i + 1)) r)"
proof (induction r i rule: trim_loop.induct)
  case (1 r i)
  show ?case
  proof (cases "i \<ge> 0")
    case False
    then have "trim_loop r i = i"
      by (simp add: trim_loop.simps [of r i])
    with False show ?thesis
      by (simp add: trim_trailing_spaces_def)
  next
    case True
    then have t: "take (nat (i + 1)) r = take (nat i) r @ [r ! nat i]"
      using 1(2) by (simp add: nat_add_distrib take_Suc_conv_app_nth)
    show ?thesis
    proof (cases "r ! nat i = CHR '' ''")
      case sp: True
      have "trim_loop r i = trim_loop r (i - 1)"
        using True sp by (simp add: trim_loop.simps [of r i])
      moreover have "take (nat (trim_loop r (i - 1) + 1)) r = trim_trailing_spaces (take (nat (i - 1 + 1)) r)"
        using 1 True sp by simp
      ultimately show ?thesis
        using sp by (simp add: t trim_trailing_snoc)
    next
      case nsp: False
      then have "trim_loop r i = i"
        by (simp add: trim_loop.simps [of r i])
      then show ?thesis
        using nsp by (simp add: t trim_trailing_snoc)
    qed
  qed
qed

lemma byte_lt_256: "unat (d::byte) < 256"
  using unsigned_less [of d, where 'a = nat] by simp

lemma unat_ucast_byte:
  assumes "8 \<le> LENGTH('a::len)"
  shows "unat (ucast (d::byte) :: 'a word) = unat d"
proof -
  have "(2::nat) ^ 8 \<le> 2 ^ LENGTH('a)"
    using assms by (intro power_increasing) simp_all
  then have "unat d < 2 ^ LENGTH('a)"
    using byte_lt_256 [of d] by simp
  then have "take_bit LENGTH('a) (unat d) = unat d"
    by (rule take_bit_nat_eq_self)
  then show ?thesis
    by (simp only: unsigned_ucast_eq)
qed

lemma or_bytes_nat:
  assumes "y < 256" "z < (256::nat)"
  shows "(push_bit 16 x OR push_bit 8 y) OR z = x * 65536 + y * 256 + z"
proof -
  have y: "take_bit 8 y = y" and z: "take_bit 8 z = z"
    using assms by (simp_all add: take_bit_nat_eq_self)
  have 1: "push_bit 16 x OR push_bit 8 (take_bit 8 y) = push_bit 16 x + push_bit 8 (take_bit 8 y)"
    by (rule disjunctive_add [symmetric]) (auto simp: bit_simps)
  have 2: "(push_bit 16 x OR push_bit 8 (take_bit 8 y)) OR take_bit 8 z
      = (push_bit 16 x OR push_bit 8 (take_bit 8 y)) + take_bit 8 z"
    by (rule disjunctive_add [symmetric]) (auto simp: bit_simps)
  have "(push_bit 16 x OR push_bit 8 (take_bit 8 y)) OR take_bit 8 z
      = (push_bit 16 x + push_bit 8 (take_bit 8 y)) + take_bit 8 z"
    by (simp only: 2) (simp only: 1)
  then have "(push_bit 16 x OR push_bit 8 y) OR z = (push_bit 16 x + push_bit 8 y) + z"
    by (simp only: y z)
  moreover have "push_bit 16 x = x * 65536" "push_bit 8 y = y * 256"
    by (simp_all add: push_bit_eq_mult)
  ultimately show ?thesis
    by (simp only:)
qed

lemma unat_push_bit_byte:
  assumes "n + 8 \<le> LENGTH('a::len)"
  shows "unat (push_bit n (ucast (d::byte) :: 'a word)) = push_bit n (unat d)"
proof -
  have "unat d * 2 ^ n < 2 ^ 8 * 2 ^ n"
    using byte_lt_256 [of d] by simp
  also have "\<dots> = (2::nat) ^ (n + 8)"
    by (simp add: power_add)
  also have "\<dots> \<le> 2 ^ LENGTH('a)"
    using assms by (intro power_increasing) simp_all
  finally have "push_bit n (unat d) < 2 ^ LENGTH('a)"
    by (simp add: push_bit_eq_mult)
  then have "take_bit LENGTH('a) (push_bit n (unat d)) = push_bit n (unat d)"
    by (rule take_bit_nat_eq_self)
  moreover have "unat (ucast d :: 'a word) = unat d"
    using assms by (intro unat_ucast_byte) simp
  ultimately show ?thesis
    by (simp only: unsigned_push_bit_eq)
qed

lemma unat_bits24:
  fixes d0 d1 d2 :: byte
  assumes "24 \<le> LENGTH('a::len)"
  shows "unat ((push_bit 16 (ucast d0 :: 'a word) OR push_bit 8 (ucast d1)) OR ucast d2)
       = unat d0 * 65536 + unat d1 * 256 + unat d2"
proof -
  have a: "unat (push_bit 16 (ucast d0 :: 'a word)) = push_bit 16 (unat d0)"
    using assms by (intro unat_push_bit_byte) simp
  have b: "unat (push_bit 8 (ucast d1 :: 'a word)) = push_bit 8 (unat d1)"
    using assms by (intro unat_push_bit_byte) simp
  have c: "unat (ucast d2 :: 'a word) = unat d2"
    using assms by (intro unat_ucast_byte) simp
  have "unat ((push_bit 16 (ucast d0 :: 'a word) OR push_bit 8 (ucast d1)) OR ucast d2)
      = (push_bit 16 (unat d0) OR push_bit 8 (unat d1)) OR unat d2"
    by (simp only: unsigned_or_eq a b c)
  then show ?thesis
    by (simp only: or_bytes_nat [OF byte_lt_256 byte_lt_256])
qed

lemma unat_and_3F:
  fixes bits :: "'a::len word"
  shows "unat (bits AND 0x3F) = unat bits mod 64"
proof -
  have "(0x3F :: 'a word) = mask 6"
    by (simp add: mask_eq_exp_minus_1)
  then have "bits AND 0x3F = take_bit 6 bits"
    by (simp only: take_bit_eq_mask)
  then have "unat (bits AND 0x3F) = take_bit 6 (unat bits)"
    by (simp only: unsigned_take_bit_eq)
  then show ?thesis
    by (simp add: take_bit_eq_mod)
qed

lemma unat_drop_bit_word:
  fixes bits :: "'a::len word"
  shows "unat (drop_bit s bits) = unat bits div 2 ^ s"
proof -
  have "take_bit LENGTH('a) (unat bits) = unat bits"
    using unsigned_less [of bits, where 'a = nat] by (simp add: take_bit_nat_eq_self)
  then have "unat (drop_bit s bits) = drop_bit s (unat bits)"
    by (simp only: unsigned_drop_bit_eq)
  then show ?thesis
    by (simp add: drop_bit_eq_div)
qed

lemma hi_sextet:
  fixes h l a b :: nat
  assumes "l < b"
  shows "(h * b + l) div (b * a) mod 64 = h div a mod 64"
proof -
  have "(h * b + l) div b = h"
    using assms by simp
  then show ?thesis
    by (simp add: div_mult2_eq)
qed

lemma lo_sextet:
  fixes h l a q :: nat
  shows "(h * (a * 64 * q) + l) div a mod 64 = l div a mod 64"
proof (cases "a = 0")
  case True
  then show ?thesis by simp
next
  case False
  have e: "h * (a * 64 * q) + l = l + (h * q * 64) * a"
    by (simp add: algebra_simps)
  have "(l + (h * q * 64) * a) div a = h * q * 64 + l div a"
    using False by (rule div_mult_self1)
  then have "(h * (a * 64 * q) + l) div a = h * q * 64 + l div a"
    by (simp only: e)
  then show ?thesis
    by simp
qed

lemma upt8: "[0..<8] = [0, 1, 2, 3, 4, 5, 6, 7::nat]"
  by (simp add: upt_rec)

lemma list6:
  assumes "length xs = 6"
  obtains a b c d e f where "xs = [a, b, c, d, e, f]"
  using assms by (auto simp: length_Suc_conv numeral_eq_Suc)

lemma value48_6:
  "value48 [d0, d1, d2, d3, d4, d5]
     = (unat d0 * 65536 + unat d1 * 256 + unat d2) * 16777216
        + (unat d3 * 65536 + unat d4 * 256 + unat d5)"
  by (simp add: value48_def)

lemma bytes24_lt: "unat (d3::byte) * 65536 + unat (d4::byte) * 256 + unat (d5::byte) < 16777216"
  using byte_lt_256 [of d3] byte_lt_256 [of d4] byte_lt_256 [of d5] by simp

lemma sixbit_groups_6:
  fixes d0 d1 d2 d3 d4 d5 :: byte
  defines "h \<equiv> unat d0 * 65536 + unat d1 * 256 + unat d2"
    and "l \<equiv> unat d3 * 65536 + unat d4 * 256 + unat d5"
  shows "sixbit_groups [d0, d1, d2, d3, d4, d5]
     = [h div 2 ^ 18 mod 64, h div 2 ^ 12 mod 64, h div 2 ^ 6 mod 64, h mod 64,
        l div 2 ^ 18 mod 64, l div 2 ^ 12 mod 64, l div 2 ^ 6 mod 64, l mod 64]"
proof -
  have l: "l < 16777216"
    unfolding l_def by (rule bytes24_lt)
  have v: "value48 [d0, d1, d2, d3, d4, d5] = h * 16777216 + l"
    unfolding h_def l_def by (rule value48_6)
  have "(h * 16777216 + l) div 64 ^ 7 mod 64 = h div 2 ^ 18 mod 64"
    using hi_sextet [OF l, of h "2 ^ 18"] by simp
  moreover have "(h * 16777216 + l) div 64 ^ 6 mod 64 = h div 2 ^ 12 mod 64"
    using hi_sextet [OF l, of h "2 ^ 12"] by simp
  moreover have "(h * 16777216 + l) div 64 ^ 5 mod 64 = h div 2 ^ 6 mod 64"
    using hi_sextet [OF l, of h "2 ^ 6"] by simp
  moreover have "(h * 16777216 + l) div 64 ^ 4 mod 64 = h mod 64"
    using hi_sextet [OF l, of h 1] by simp
  moreover have "(h * 16777216 + l) div 64 ^ 3 mod 64 = l div 2 ^ 18 mod 64"
    using lo_sextet [of h "2 ^ 18" 1 l] by simp
  moreover have "(h * 16777216 + l) div 64 ^ 2 mod 64 = l div 2 ^ 12 mod 64"
    using lo_sextet [of h "2 ^ 12" 64 l] by simp
  moreover have "(h * 16777216 + l) div 64 ^ 1 mod 64 = l div 2 ^ 6 mod 64"
    using lo_sextet [of h "2 ^ 6" 4096 l] by simp
  moreover have "(h * 16777216 + l) div 64 ^ 0 mod 64 = l mod 64"
    using lo_sextet [of h 1 262144 l] by simp
  ultimately show ?thesis
    unfolding sixbit_groups_def v upt8 by simp
qed

lemma trim_loop_8:
  assumes "length r = 8"
  shows "take (nat (trim_loop r 7 + 1)) r = trim_trailing_spaces r"
  using trim_loop_take [of 7 r] assms by simp

lemma decodeAircraftID_6:
  "decodeAircraftID [d0, d1, d2, d3, d4, d5] = callsign_spec [d0, d1, d2, d3, d4, d5]"
proof -
  define h where "h = unat d0 * 65536 + unat d1 * 256 + unat d2"
  define l where "l = unat d3 * 65536 + unat d4 * 256 + unat d5"
  define r where "r = map (\<lambda>g. charset ! g)
       [h div 2 ^ 18 mod 64, h div 2 ^ 12 mod 64, h div 2 ^ 6 mod 64, h mod 64,
        l div 2 ^ 18 mod 64, l div 2 ^ 12 mod 64, l div 2 ^ 6 mod 64, l mod 64]"
  have len: "\<not> length [d0, d1, d2, d3, d4, d5] < 6"
    by simp
  have nth: "[d0, d1, d2, d3, d4, d5] ! 0 = d0" "[d0, d1, d2, d3, d4, d5] ! 1 = d1"
    "[d0, d1, d2, d3, d4, d5] ! 2 = d2" "[d0, d1, d2, d3, d4, d5] ! 3 = d3"
    "[d0, d1, d2, d3, d4, d5] ! 4 = d4" "[d0, d1, d2, d3, d4, d5] ! 5 = d5"
    by simp_all
  have b: "unat ((push_bit 16 (ucast a :: 64 word) OR push_bit 8 (ucast b)) OR ucast c)
       = unat a * 65536 + unat b * 256 + unat c" for a b c :: byte
    by (rule unat_bits24) simp
  have "decodeAircraftID [d0, d1, d2, d3, d4, d5] = take (nat (trim_loop r 7 + 1)) r"
    unfolding decodeAircraftID_def Let_def r_def h_def l_def
    by (simp only: len nth if_False unat_and_3F unat_drop_bit_word b list.map)
  also have "\<dots> = trim_trailing_spaces r"
    by (rule trim_loop_8) (simp add: r_def)
  also have "r = map (\<lambda>g. charset ! g) (sixbit_groups [d0, d1, d2, d3, d4, d5])"
    unfolding r_def h_def l_def by (simp only: sixbit_groups_6)
  finally show ?thesis
    by (simp only: callsign_spec_def)
qed

lemma DecodeCallsign_6:
  "DecodeCallsign [d0, d1, d2, d3, d4, d5] = callsign_spec [d0, d1, d2, d3, d4, d5]"
proof -
  define h where "h = unat d0 * 65536 + unat d1 * 256 + unat d2"
  define l where "l = unat d3 * 65536 + unat d4 * 256 + unat d5"
  define r where "r = map (\<lambda>g. charset ! g)
       [h div 2 ^ 18 mod 64, h div 2 ^ 12 mod 64, h div 2 ^ 6 mod 64, h mod 64,
        l div 2 ^ 18 mod 64, l div 2 ^ 12 mod 64, l div 2 ^ 6 mod 64, l mod 64]"
  have len: "\<not> length [d0, d1, d2, d3, d4, d5] < 6"
    by simp
  have nth: "[d0, d1, d2, d3, d4, d5] ! 0 = d0" "[d0, d1, d2, d3, d4, d5] ! 1 = d1"
    "[d0, d1, d2, d3, d4, d5] ! 2 = d2" "[d0, d1, d2, d3, d4, d5] ! 3 = d3"
    "[d0, d1, d2, d3, d4, d5] ! 4 = d4" "[d0, d1, d2, d3, d4, d5] ! 5 = d5"
    by simp_all
  have b: "unat ((push_bit 16 (ucast a :: 32 word) OR push_bit 8 (ucast b)) OR ucast c)
       = unat a * 65536 + unat b * 256 + unat c" for a b c :: byte
    by (rule unat_bits24) simp
  have "DecodeCallsign [d0, d1, d2, d3, d4, d5] = take (nat (trim_loop r 7 + 1)) r"
    unfolding DecodeCallsign_def Let_def r_def h_def l_def
    by (simp only: len nth if_False unat_and_3F unat_drop_bit_word b list.map)
  also have "\<dots> = trim_trailing_spaces r"
    by (rule trim_loop_8) (simp add: r_def)
  also have "r = map (\<lambda>g. charset ! g) (sixbit_groups [d0, d1, d2, d3, d4, d5])"
    unfolding r_def h_def l_def by (simp only: sixbit_groups_6)
  finally show ?thesis
    by (simp only: callsign_spec_def)
qed

lemma klm_decodeAircraftID: "decodeAircraftID [0x2C, 0xC3, 0x71, 0xC3, 0x2C, 0xE0] = ''KLM1023''"
  by (simp add: decodeAircraftID_def charset_def trim_loop.simps)

lemma klm_DecodeCallsign: "DecodeCallsign [0x2C, 0xC3, 0x71, 0xC3, 0x2C, 0xE0] = ''KLM1023''"
  by (simp add: DecodeCallsign_def charset_def trim_loop.simps)

lemma klm_groups:
  "map (\<lambda>g. charset ! g) (sixbit_groups [0x2C, 0xC3, 0x71, 0xC3, 0x2C, 0xE0]) = ''KLM1023 ''"
  by (simp add: sixbit_groups_6 charset_def)

text \<open>
  Claim C6. For every 6-byte payload both callsign decoders return the characters that
  the eight 6-bit groups of the 48 bits select in the ICAO character set, with trailing
  spaces removed. The six bytes 2C C3 71 C3 2C E0 carry the groups of \<open>KLM1023\<close>
  followed by a space, and decode to exactly \<open>KLM1023\<close>.
\<close>

theorem callsign_decode:
  "(length data = 6 \<longrightarrow>
      decodeAircraftID data = callsign_spec data \<and> DecodeCallsign data = callsign_spec data)
   \<and> map (\<lambda>g. charset ! g) (sixbit_groups [0x2C, 0xC3, 0x71, 0xC3, 0x2C, 0xE0]) = ''KLM1023 ''
   \<and> decodeAircraftID [0x2C, 0xC3, 0x71, 0xC3, 0x2C, 0xE0] = ''KLM1023''
   \<and> DecodeCallsign [0x2C, 0xC3, 0x71, 0xC3, 0x2C, 0xE0] = ''KLM1023''"
proof (intro conjI impI)
  assume "length data = 6"
  then obtain a b c d e f where "data = [a, b, c, d, e, f]"
    by (rule list6)
  then show "decodeAircraftID data = callsign_spec data"
    and "DecodeCallsign data = callsign_spec data"
    by (simp_all only: decodeAircraftID_6 DecodeCallsign_6)
qed (rule klm_groups klm_decodeAircraftID klm_DecodeCallsign)+

theorem callsign_decode_witness:
  "length [0x2C, 0xC3, 0x71, 0xC3, 0x2C, 0xE0 :: byte] = 6
   \<and> callsign_spec [0x2C, 0xC3, 0x71, 0xC3, 0x2C, 0xE0] = ''KLM1023''"
  using callsign_decode [of "[0x2C, 0xC3, 0x71, 0xC3, 0x2C, 0xE0]"]
  by (elim conjE) (simp only: list.size, simp)

section \<open>Trail: proofs\<close>

lemma addToTrail_Trail:
  "Trail (addToTrail now a lat lon)
     = (if length (Trail a) \<ge> TrailLength then drop 1 (Trail a) else Trail a)
         @ [trail_pos a (now, lat, lon)]"
  by (simp add: addToTrail_def trail_pos_def Let_def)

lemma addToTrail_fields:
  "Altitude (addToTrail now a lat lon) = Altitude a"
  "Heading (addToTrail now a lat lon) = Heading a"
  by (simp_all add: addToTrail_def Let_def)

lemma trail_pos_addToTrail: "trail_pos (addToTrail now a lat lon) p = trail_pos a p"
  by (simp add: trail_pos_def addToTrail_fields split: prod.splits)

lemma bounded_append:
  assumes "0 < c" "length t \<le> c"
  shows "(if length t \<ge> c then drop 1 t else t) @ [x] = drop (length (t @ [x]) - c) (t @ [x])"
  using assms by (auto simp: not_le Suc_diff_le)

lemma addToTrail_many_Trail:
  "length (Trail a) \<le> TrailLength \<Longrightarrow>
   Trail (addToTrail_many ps a)
     = drop (length (Trail a) + length ps - TrailLength) (Trail a @ map (trail_pos a) ps)"
proof (induction ps arbitrary: a)
  case Nil
  then show ?case by simp
next
  case (Cons p ps)
  obtain now lat lon where p: "p = (now, lat, lon)"
    by (cases p)
  let ?a = "addToTrail now a lat lon"
  have pos: "0 < TrailLength"
    by (simp add: TrailLength_def)
  have t: "Trail ?a = drop (length (Trail a @ [trail_pos a p]) - TrailLength) (Trail a @ [trail_pos a p])"
    unfolding addToTrail_Trail p by (rule bounded_append [OF pos Cons.prems])
  then have len: "length (Trail ?a) \<le> TrailLength"
    using Cons.prems by simp
  have m: "map (trail_pos ?a) ps = map (trail_pos a) ps"
    by (simp add: trail_pos_addToTrail)
  have "Trail (addToTrail_many (p # ps) a) = Trail (addToTrail_many ps ?a)"
    by (simp add: p)
  also have "\<dots> = drop (length (Trail ?a) + length ps - TrailLength) (Trail ?a @ map (trail_pos a) ps)"
    by (simp only: Cons.IH [OF len] m)
  also have "\<dots> = drop (length (Trail a) + length (p # ps) - TrailLength)
       (Trail a @ map (trail_pos a) (p # ps))"
  proof (cases "length (Trail a) < TrailLength")
    case True
    then have "Trail ?a = Trail a @ [trail_pos a p]"
      by (simp add: t)
    then show ?thesis by simp
  next
    case False
    then have e: "length (Trail a) = TrailLength"
      using Cons.prems by simp
    then have "Trail ?a = drop 1 (Trail a) @ [trail_pos a p]"
      using pos by (simp add: t)
    moreover have "Trail a \<noteq> []"
      using e pos by auto
    ultimately show ?thesis
      using e pos by (cases "Trail a") (simp_all add: drop_Cons')
  qed
  finally show ?case .
qed

lemma addToTrail_many_bound:
  assumes "length (Trail a) \<le> TrailLength" "TrailLength < length ps"
  shows "Trail (addToTrail_many ps a) = map (trail_pos a) (drop (length ps - TrailLength) ps)"
proof -
  have "length (Trail a) + length ps - TrailLength
      = length (Trail a) + (length ps - TrailLength)"
    using assms(2) by simp
  then show ?thesis
    by (simp add: addToTrail_many_Trail [OF assms(1)] drop_map)
qed

section \<open>Store: proofs\<close>

lemma RemoveStale_loop_notin:
  "icao \<notin> set ks \<Longrightarrow> RemoveStale_loop now ttl h ks d icao = d icao"
  by (induction ks arbitrary: d) (auto split: option.splits)

lemma RemoveStale_loop_None:
  "d icao = None \<Longrightarrow> RemoveStale_loop now ttl h ks d icao = None"
  by (induction ks arbitrary: d) (auto split: option.splits)

lemma RemoveStale_loop_in:
  "icao \<in> set ks \<Longrightarrow> d icao = Some p \<Longrightarrow>
   RemoveStale_loop now ttl h ks d icao
     = (if time_Sub now (Seen (h p)) > ttl then None else Some p)"
proof (induction ks arbitrary: d)
  case Nil
  then show ?case by simp
next
  case (Cons k ks)
  show ?case
  proof (cases "k = icao")
    case True
    show ?thesis
    proof (cases "time_Sub now (Seen (h p)) > ttl")
      case stale: True
      then show ?thesis
        using True Cons.prems(2) by (simp add: RemoveStale_loop_None)
    next
      case fresh: False
      show ?thesis
      proof (cases "icao \<in> set ks")
        case True
        then show ?thesis
          using \<open>k = icao\<close> fresh Cons.prems(2) Cons.IH [of d, OF True Cons.prems(2)] by simp
      next
        case False
        then show ?thesis
          using \<open>k = icao\<close> fresh Cons.prems(2) by (simp add: RemoveStale_loop_notin)
      qed
    qed
  next
    case False
    then have in_ks: "icao \<in> set ks"
      using Cons.prems(1) by simp
    have keep: "(d(k := None)) icao = Some p"
      using False Cons.prems(2) by simp
    have 1: "RemoveStale_loop now ttl h ks d icao
        = (if time_Sub now (Seen (h p)) > ttl then None else Some p)"
      by (rule Cons.IH [of d, OF in_ks Cons.prems(2)])
    have 2: "RemoveStale_loop now ttl h ks (d(k := None)) icao
        = (if time_Sub now (Seen (h p)) > ttl then None else Some p)"
      by (rule Cons.IH [of "d(k := None)", OF in_ks keep])
    show ?thesis
      by (simp add: 1 2 split: option.splits)
  qed
qed

lemma time_Sub_exact:
  "minDuration \<le> t - u \<Longrightarrow> t - u \<le> maxDuration \<Longrightarrow> time_Sub t u = t - u"
  by (simp add: time_Sub_def)



section \<open>CPR: proofs\<close>

lemma cprModFunction_nonneg:
  assumes "0 \<le> a" "0 < b"
  shows "cprModFunction a b = a mod b"
proof -
  have "0 \<le> a mod b"
    using assms(2) by simp
  then have "\<not> a mod b < 0"
    by simp
  then show ?thesis
    using assms by (auto simp: cprModFunction_def signed_modulo_int_def Let_def sgn_if)
qed

lemma cprNLFunction_36: "51.89342469 \<le> lat \<Longrightarrow> lat < 53.09516153 \<Longrightarrow> cprNLFunction lat = 36"
  by (simp add: cprNLFunction_def)

lemma Milliseconds_window:
  assumes "0 \<le> d" "d \<le> 10000000000"
  shows "Milliseconds (time_Sub (u + d) u) \<le> 10000" "0 \<le> Milliseconds (time_Sub (u + d) u)"
proof -
  have "time_Sub (u + d) u = d"
    using assms by (simp add: time_Sub_def maxDuration_def minDuration_def)
  moreover have "d sdiv 1000000 = d div 1000000"
    using assms(1) by (auto simp: signed_divide_int_def sgn_if)
  ultimately have m: "Milliseconds (time_Sub (u + d) u) = d div 1000000"
    by (simp add: Milliseconds_def)
  show "Milliseconds (time_Sub (u + d) u) \<le> 10000"
    using assms(2) unfolding m by linarith
  show "0 \<le> Milliseconds (time_Sub (u + d) u)"
    using assms(1) unfolding m by simp
qed


lemma worked_example_even_recent:
  assumes "0 < tOdd" "tOdd \<le> tEven" "tEven - tOdd \<le> 10000000000"
  shows "DecodeCPRPosition (worked_example tEven tOdd) (worked_example tEven tOdd)
       = Some (428091 / 8192, 64215 / 16384)"
proof -
  define d where "d = tEven - tOdd"
  have te: "tEven = tOdd + d" and d: "0 \<le> d" "d \<le> 10000000000"
    using assms by (simp_all add: d_def)
  have ms: "\<not> \<bar>of_int (Milliseconds (time_Sub tEven tOdd)) :: real\<bar> > 10000"
    using Milliseconds_window [OF d, of tOdd] unfolding te by simp
  have nz: "\<not> IsZero tEven" "\<not> IsZero tOdd" "\<not> After tOdd tEven"
    using assms by (simp_all add: IsZero_def After_def)
  show ?thesis
    using ms nz
    by (simp add: DecodeCPRPosition_def worked_example_def Let_def cprModFunction_nonneg
        cprNLFunction_36 cprN_def cprDlon_def)
qed


lemma cprNLFunction_map_52: "51.5 \<le> lat \<Longrightarrow> lat < 52.5 \<Longrightarrow> cprNLFunction_map lat = 49"
proof -
  assume a: "51.5 \<le> lat" "lat < 52.5"
  then have "\<lfloor>lat + 1 / 2\<rfloor> = 52"
    by (simp add: floor_eq_iff)
  then show ?thesis
    using a by (simp add: cprNLFunction_map_def go_Round_def Let_def nl_table_def
        NL_LOOKUP_TABLE_SIZE_def)
qed

lemma worked_example_odd_recent:
  "DecodeCPRPosition (worked_example 1000000000 2000000000) (worked_example 1000000000 2000000000)
     = Some (25261515 / 483328, 225873 / 57344)"
  by (simp add: DecodeCPRPosition_def worked_example_def Let_def cprModFunction_nonneg
        cprNLFunction_36 cprN_def cprDlon_def IsZero_def After_def Milliseconds_def
        time_Sub_def maxDuration_def minDuration_def signed_divide_int_def)

lemma worked_example_map_odd:
  "DecodeCPRPosition_map 93000 51372 74158 50194 True = Some (25261515 / 483328, 376455 / 131072)"
  by (simp add: DecodeCPRPosition_map_def Let_def cprModFunction_nonneg
        cprNLFunction_map_52 cprNFunction_def cprDlonFunction_def)

lemma worked_example_map_even:
  "DecodeCPRPosition_map 93000 51372 74158 50194 False = Some (428091 / 8192, 577935 / 200704)"
  by (simp add: DecodeCPRPosition_map_def Let_def cprModFunction_nonneg
        cprNLFunction_map_52 cprNFunction_def cprDlonFunction_def)

lemma worked_example_late:
  "DecodeCPRPosition (worked_example 11000000001 1000000000) (worked_example 11000000001 1000000000)
     = Some (428091 / 8192, 64215 / 16384)"
  by (simp add: DecodeCPRPosition_def worked_example_def Let_def cprModFunction_nonneg
        cprNLFunction_36 cprN_def cprDlon_def IsZero_def After_def Milliseconds_def
        time_Sub_def maxDuration_def minDuration_def signed_divide_int_def)

lemma DecodeCPRPosition_even_recent:
  assumes "EvenCPRLat evenPos = 93000" "EvenCPRLon evenPos = 51372"
    and "OddCPRLat oddPos = 74158" "OddCPRLon oddPos = 50194"
    and "0 < OddCPRTime oddPos" "OddCPRTime oddPos \<le> EvenCPRTime evenPos"
    and "EvenCPRTime evenPos - OddCPRTime oddPos \<le> 10000000000"
  shows "DecodeCPRPosition evenPos oddPos = Some (428091 / 8192, 64215 / 16384)"
proof -
  define d where "d = EvenCPRTime evenPos - OddCPRTime oddPos"
  have te: "EvenCPRTime evenPos = OddCPRTime oddPos + d" and d: "0 \<le> d" "d \<le> 10000000000"
    using assms by (simp_all add: d_def)
  have ms: "\<not> \<bar>of_int (Milliseconds (time_Sub (EvenCPRTime evenPos) (OddCPRTime oddPos))) :: real\<bar>
      > 10000"
    using Milliseconds_window [OF d, of "OddCPRTime oddPos"] unfolding te by simp
  have nz: "\<not> IsZero (EvenCPRTime evenPos)" "\<not> IsZero (OddCPRTime oddPos)"
    "\<not> After (OddCPRTime oddPos) (EvenCPRTime evenPos)"
    using assms by (simp_all add: IsZero_def After_def)
  show ?thesis
    using ms nz
    by (simp add: DecodeCPRPosition_def assms(1-4) Let_def cprModFunction_nonneg
        cprNLFunction_36 cprN_def cprDlon_def)
qed

lemma DecodeCPRPosition_stale:
  assumes "10001000000 \<le> \<bar>EvenCPRTime evenPos - OddCPRTime oddPos\<bar>"
  shows "DecodeCPRPosition evenPos oddPos = None"
proof -
  define x where "x = time_Sub (EvenCPRTime evenPos) (OddCPRTime oddPos)"
  have x: "10001000000 \<le> \<bar>x\<bar>"
    using assms by (auto simp: x_def time_Sub_def maxDuration_def minDuration_def Let_def)
  then have "10001 \<le> \<bar>x\<bar> div 1000000"
    by linarith
  moreover have "\<bar>Milliseconds x\<bar> = \<bar>x\<bar> div 1000000"
    using x by (auto simp: Milliseconds_def signed_divide_int_def sgn_if abs_mult)
  ultimately have "\<bar>of_int (Milliseconds x) :: real\<bar> > 10000"
    by (simp flip: of_int_abs)
  then show ?thesis
    by (simp add: DecodeCPRPosition_def x_def)
qed

text \<open>
  Claim C1 (as amended). For the worked example (even 93000, 51372; odd 74158, 50194), both
  reports received, the even one at the same time as or up to 10 seconds after the odd
  one, \<open>DecodeCPRPosition\<close> of part 002 resolves a position whose latitude is within
  0.001 degrees of 52.25713 and whose longitude is within 0.001 degrees of 3.91937.
\<close>

theorem cpr_worked_example:
  assumes "EvenCPRLat evenPos = 93000" "EvenCPRLon evenPos = 51372"
    and "OddCPRLat oddPos = 74158" "OddCPRLon oddPos = 50194"
    and "0 < OddCPRTime oddPos" "OddCPRTime oddPos \<le> EvenCPRTime evenPos"
    and "EvenCPRTime evenPos - OddCPRTime oddPos \<le> 10000000000"
  shows "\<exists>lat lon. DecodeCPRPosition evenPos oddPos = Some (lat, lon)
           \<and> \<bar>lat - 52.25713\<bar> \<le> 1 / 1000 \<and> \<bar>lon - 3.91937\<bar> \<le> 1 / 1000"
proof (intro exI conjI)
  show "DecodeCPRPosition evenPos oddPos = Some (428091 / 8192, 64215 / 16384)"
    using assms by (rule DecodeCPRPosition_even_recent)
  show "\<bar>428091 / 8192 - 52.25713\<bar> \<le> (1 / 1000 :: real)"
    by simp
  show "\<bar>64215 / 16384 - 3.91937\<bar> \<le> (1 / 1000 :: real)"
    by simp
qed

theorem cpr_worked_example_witness:
  "\<exists>lat lon. DecodeCPRPosition (worked_example 2000000000 1000000000)
                 (worked_example 2000000000 1000000000) = Some (lat, lon)
           \<and> \<bar>lat - 52.25713\<bar> \<le> 1 / 1000 \<and> \<bar>lon - 3.91937\<bar> \<le> 1 / 1000"
  by (rule cpr_worked_example) (simp_all add: worked_example_def)

text \<open>
  With the odd report the more recent one, one second after the even one, the resolver
  of part 002 returns the odd latitude 52.26578 and the longitude 3.93891, and the
  resolver of map.go returns 52.26578 and 2.87212: both latitudes are more than 0.001
  degrees from 52.25713, and both longitudes more than 0.001 degrees from 3.91937.
\<close>

theorem cpr_worked_example_counterexample:
  "DecodeCPRPosition (worked_example 1000000000 2000000000) (worked_example 1000000000 2000000000)
     = Some (25261515 / 483328, 225873 / 57344)
   \<and> DecodeCPRPosition_map 93000 51372 74158 50194 True
     = Some (25261515 / 483328, 376455 / 131072)
   \<and> \<bar>25261515 / 483328 - 52.25713\<bar> > (1 / 1000 :: real)
   \<and> \<bar>225873 / 57344 - 3.91937\<bar> > (1 / 1000 :: real)
   \<and> \<bar>376455 / 131072 - 3.91937\<bar> > (1 / 1000 :: real)"
  by (simp add: worked_example_odd_recent worked_example_map_odd)

section \<open>Stale pairs: proofs\<close>

lemma resolvePosition_stale:
  assumes "10000 < \<bar>EvenCPRTime_m aircraft - OddCPRTime_m aircraft\<bar>"
  shows "resolvePosition now trailLength odd' aircraft = Inr aircraft"
proof -
  have "\<not> \<bar>of_int (EvenCPRTime_m aircraft - OddCPRTime_m aircraft) :: real\<bar> \<le> 10000"
    using assms by (simp flip: of_int_abs)
  then show ?thesis
    by (simp add: resolvePosition_def)
qed

text \<open>
  Claim C2 (as amended). A pair of CPR reports whose reception times are at least 10.001
  seconds apart is never resolved, whatever the raw field values: \<open>DecodeCPRPosition\<close>
  of part 002, whose times are in nanoseconds and compared in whole milliseconds, returns
  no position; and the resolution step of \<open>processModeS\<close>, whose times are in
  milliseconds, leaves the aircraft as it is when they differ by more than 10000.
\<close>

theorem cpr_stale_pair_unresolved:
  "(10001000000 \<le> \<bar>EvenCPRTime evenPos - OddCPRTime oddPos\<bar>
      \<longrightarrow> DecodeCPRPosition evenPos oddPos = None)
   \<and> (10000 < \<bar>EvenCPRTime_m aircraft - OddCPRTime_m aircraft\<bar>
      \<longrightarrow> resolvePosition now trailLength odd' aircraft = Inr aircraft)"
proof (intro conjI impI)
  assume "10001000000 \<le> \<bar>EvenCPRTime evenPos - OddCPRTime oddPos\<bar>"
  then show "DecodeCPRPosition evenPos oddPos = None"
    by (rule DecodeCPRPosition_stale)
next
  assume "10000 < \<bar>EvenCPRTime_m aircraft - OddCPRTime_m aircraft\<bar>"
  then show "resolvePosition now trailLength odd' aircraft = Inr aircraft"
    by (rule resolvePosition_stale)
qed

theorem cpr_stale_pair_unresolved_witness:
  "DecodeCPRPosition (worked_example 12000000000 1000000000) (worked_example 12000000000 1000000000)
     = None
   \<and> resolvePosition 0 50 True
        ((heap_m (snd (GetOrCreate_map 0 1 NewAircraftMap_map)) 0)
           \<lparr>EvenCPRTime_m := 12000, OddCPRTime_m := 1000\<rparr>)
     = Inr ((heap_m (snd (GetOrCreate_map 0 1 NewAircraftMap_map)) 0)
           \<lparr>EvenCPRTime_m := 12000, OddCPRTime_m := 1000\<rparr>)"
  using cpr_stale_pair_unresolved [of "worked_example 12000000000 1000000000"
      "worked_example 12000000000 1000000000"
      "(heap_m (snd (GetOrCreate_map 0 1 NewAircraftMap_map)) 0)
           \<lparr>EvenCPRTime_m := 12000, OddCPRTime_m := 1000\<rparr>" 0 50 True]
  by (simp add: worked_example_def GetOrCreate_map_def NewAircraftMap_map_def)

text \<open>
  The claim as first stated fails for part 002: reports 10 seconds and one nanosecond
  apart differ by more than 10 seconds, yet their difference is 10000 whole milliseconds
  and the pair is resolved.
\<close>

theorem cpr_stale_pair_counterexample:
  "(11000000001 :: int) - 1000000000 > 10 * 1000000000
   \<and> DecodeCPRPosition (worked_example 11000000001 1000000000) (worked_example 11000000001 1000000000)
     = Some (428091 / 8192, 64215 / 16384)"
  by (simp add: worked_example_late)

lemma trail_append_ok:
  assumes "0 < c" "int (length t) \<le> c"
  shows "trail_append c t x = Inr (drop (length (t @ [x]) - nat c) (t @ [x]))"
proof (cases "int (length t) = c")
  case True
  then have "t \<noteq> []"
    using assms(1) by auto
  moreover have "length t = nat c"
    using True by simp
  ultimately show ?thesis
    using True by (cases t) (simp_all add: trail_append_def)
next
  case False
  then have "length t < nat c"
    using assms by linarith
  then show ?thesis
    using False assms by (simp add: trail_append_def)
qed

text \<open>
  With a configured length of 0 or less the first append of \<open>processModeS\<close> slices an
  empty trail and panics; the bound below is for a positive length.
\<close>

lemma trail_append_no_capacity:
  "c \<le> 0 \<Longrightarrow> trail_append c [] x = Inl SliceBoundsOutOfRange"
  by (simp add: trail_append_def)

lemma trail_append_many_ok:
  "0 < c \<Longrightarrow> int (length t) \<le> c \<Longrightarrow>
   trail_append_many c qs t = Inr (drop (length t + length qs - nat c) (t @ qs))"
proof (induction qs arbitrary: t)
  case Nil
  then show ?case by simp
next
  case (Cons q qs)
  let ?t = "drop (length (t @ [q]) - nat c) (t @ [q])"
  have a: "trail_append c t q = Inr ?t"
    using Cons.prems by (rule trail_append_ok)
  have len: "int (length ?t) \<le> c"
    using Cons.prems by simp
  have "trail_append_many c (q # qs) t = trail_append_many c qs ?t"
    by (simp add: a)
  also have "\<dots> = Inr (drop (length ?t + length qs - nat c) (?t @ qs))"
    using Cons.prems(1) len by (rule Cons.IH)
  also have "drop (length ?t + length qs - nat c) (?t @ qs)
      = drop (length t + length (q # qs) - nat c) (t @ q # qs)"
  proof (cases "length t < nat c")
    case True
    then show ?thesis by simp
  next
    case False
    then have e: "length t = nat c"
      using Cons.prems by linarith
    then have "t \<noteq> []"
      using Cons.prems(1) by auto
    then show ?thesis
      using e by (cases t) simp_all
  qed
  finally show ?case .
qed

lemma trail_append_many_bound:
  assumes "0 < c" "int (length t) \<le> c" "c < int (length qs)"
  shows "trail_append_many c qs t = Inr (drop (length qs - nat c) qs)"
proof -
  have "length t + length qs - nat c = length t + (length qs - nat c)"
    using assms by linarith
  then show ?thesis
    by (simp add: trail_append_many_ok [OF assms(1,2)])
qed

text \<open>
  The bound where it holds. A trail that holds at most its capacity of entries (every
  trail starts empty), after more appends than the capacity, holds exactly the capacity
  number of entries: the most recently appended positions, in the order of their arrival,
  the last appended last. This is so for \<open>addToTrail\<close> with its capacity of 120, and for
  the append of \<open>processModeS\<close> with a configured capacity of at least 1.
\<close>

theorem trail_bound:
  "(length (Trail a) \<le> TrailLength \<and> TrailLength < length ps \<longrightarrow>
      Trail (addToTrail_many ps a) = map (trail_pos a) (drop (length ps - TrailLength) ps)
      \<and> length (Trail (addToTrail_many ps a)) = TrailLength
      \<and> last (Trail (addToTrail_many ps a)) = trail_pos a (last ps))
   \<and> (0 < c \<and> int (length t) \<le> c \<and> c < int (length qs) \<longrightarrow>
      trail_append_many c qs t = Inr (drop (length qs - nat c) qs)
      \<and> length (drop (length qs - nat c) qs) = nat c
      \<and> last (drop (length qs - nat c) qs) = last qs)"
proof (intro conjI impI)
  assume h: "length (Trail a) \<le> TrailLength \<and> TrailLength < length ps"
  then show e: "Trail (addToTrail_many ps a) = map (trail_pos a) (drop (length ps - TrailLength) ps)"
    by (simp add: addToTrail_many_bound)
  show "length (Trail (addToTrail_many ps a)) = TrailLength"
    using h by (simp add: e)
  have "0 < TrailLength"
    by (simp add: TrailLength_def)
  then have "length ps - TrailLength < length ps"
    using h by linarith
  then have "drop (length ps - TrailLength) ps \<noteq> []"
    by simp
  then show "last (Trail (addToTrail_many ps a)) = trail_pos a (last ps)"
    using h by (simp add: e last_map)
next
  assume h: "0 < c \<and> int (length t) \<le> c \<and> c < int (length qs)"
  then show "trail_append_many c qs t = Inr (drop (length qs - nat c) qs)"
    by (simp add: trail_append_many_bound)
  have "nat c \<le> length qs"
    using h by linarith
  then show "length (drop (length qs - nat c) qs) = nat c"
    by simp
  have "length qs - nat c < length qs"
    using h by linarith
  then have "drop (length qs - nat c) qs \<noteq> []"
    by simp
  then show "last (drop (length qs - nat c) qs) = last qs"
    by simp
qed

theorem trail_bound_witness:
  "Trail (addToTrail_many (replicate 121 (7, 1, 2)) (worked_example 0 0))
     = replicate 120 \<lparr>pos_Lat = 1, pos_Lon = 2, pos_Altitude = 0, pos_Heading = 0, pos_Timestamp = 7\<rparr>
   \<and> trail_append_many 2
        [\<lparr>pos_Lat = 1, pos_Lon = 1, pos_Altitude = 0, pos_Heading = 0, pos_Timestamp = 1\<rparr>,
         \<lparr>pos_Lat = 2, pos_Lon = 2, pos_Altitude = 0, pos_Heading = 0, pos_Timestamp = 2\<rparr>,
         \<lparr>pos_Lat = 3, pos_Lon = 3, pos_Altitude = 0, pos_Heading = 0, pos_Timestamp = 3\<rparr>] []
     = Inr [\<lparr>pos_Lat = 2, pos_Lon = 2, pos_Altitude = 0, pos_Heading = 0, pos_Timestamp = 2\<rparr>,
            \<lparr>pos_Lat = 3, pos_Lon = 3, pos_Altitude = 0, pos_Heading = 0, pos_Timestamp = 3\<rparr>]"
  using trail_bound [of "worked_example 0 0" "replicate 121 (7, 1, 2)" 2 "[]"
      "[\<lparr>pos_Lat = 1, pos_Lon = 1, pos_Altitude = 0, pos_Heading = 0, pos_Timestamp = 1\<rparr>,
         \<lparr>pos_Lat = 2, pos_Lon = 2, pos_Altitude = 0, pos_Heading = 0, pos_Timestamp = 2\<rparr>,
         \<lparr>pos_Lat = 3, pos_Lon = 3, pos_Altitude = 0, pos_Heading = 0, pos_Timestamp = 3\<rparr>]"]
  by (simp add: worked_example_def TrailLength_def trail_pos_def)

subsection \<open>A configured trail length of 0\<close>

text \<open>
  The trail length comes from the flag \<open>--traillen\<close>, which \<open>main\<close> stores as it is given.
  The frames below are evaluated one and two seconds after the Unix epoch.
\<close>

lemma frame_fields:
  "uint (rawLat_of even_frame) = 93000" "uint (rawLon_of even_frame) = 51372"
  "uint (rawLat_of odd_frame) = 74158" "uint (rawLon_of odd_frame) = 50194"
  "DecodeAltitude even_frame = 0" "DecodeAltitude odd_frame = 0"
  "icao_of even_frame = 0x40621D" "icao_of odd_frame = 0x40621D"
  by (simp_all add: rawLat_of_def rawLon_of_def even_frame_def odd_frame_def DecodeAltitude_def
      ac12Field_of_def icao_of_def)

lemma UnixMilli_example:
  "UnixMilli 62135596801000000000 = 1000" "UnixMilli 62135596802000000000 = 2000"
  by (simp_all add: UnixMilli_def unixEpoch_def signed_divide_int_def)

lemma frame_shape:
  "length even_frame = 14" "even_frame ! 0 = 0x8D" "even_frame ! 4 = 0x58" "even_frame ! 6 = 0x82"
  "length odd_frame = 14" "odd_frame ! 0 = 0x8D" "odd_frame ! 4 = 0x58" "odd_frame ! 6 = 0x86"
  by (simp_all add: even_frame_def odd_frame_def)

lemma even_frame_stored:
  "\<exists>a1. processModeS 62135596801000000000 even_frame 0 (new_app\<lparr>app_TrailLength := c\<rparr>) = Inr a1
     \<and> data_m (app_aircraft a1) 0x40621D = Some 0 \<and> app_TrailLength a1 = c
     \<and> EvenCPRTime_m (heap_m (app_aircraft a1) 0) = 1000
     \<and> EvenCPRLat_m (heap_m (app_aircraft a1) 0) = 93000
     \<and> EvenCPRLon_m (heap_m (app_aircraft a1) 0) = 51372
     \<and> Trail_m (heap_m (app_aircraft a1) 0) = []"
  by (simp add: processModeS_def airbornePosition_def resolvePosition_def frame_fields
      frame_shape UnixMilli_example new_app_def NewAircraftMap_map_def GetOrCreate_map_def Let_def)

lemma odd_frame_resolves:
  assumes "data_m (app_aircraft a1) 0x40621D = Some 0"
    and "EvenCPRTime_m (heap_m (app_aircraft a1) 0) = 1000"
    and "EvenCPRLat_m (heap_m (app_aircraft a1) 0) = 93000"
    and "EvenCPRLon_m (heap_m (app_aircraft a1) 0) = 51372"
    and "Trail_m (heap_m (app_aircraft a1) 0) = []"
  shows "processModeS 62135596802000000000 odd_frame 0 a1 =
     (case trail_append (app_TrailLength a1) []
             \<lparr>pos_Lat = 25261515 / 483328, pos_Lon = 376455 / 131072,
              pos_Altitude = Altitude_m (heap_m (app_aircraft a1) 0),
              pos_Heading = Heading_m (heap_m (app_aircraft a1) 0),
              pos_Timestamp = 62135596802000000000\<rparr> of
        Inl e \<Rightarrow> Inl e
      | Inr trail \<Rightarrow>
          Inr (a1\<lparr>app_aircraft := (app_aircraft a1)\<lparr>heap_m := (heap_m (app_aircraft a1))
                 (0 := (heap_m (app_aircraft a1) 0)
                    \<lparr>OddCPRLat_m := 74158, OddCPRLon_m := 50194, OddCPRTime_m := 2000,
                     Lat_m := 25261515 / 483328, Lon_m := 376455 / 131072,
                     SeenLatLon_m := 62135596802000000000, Trail_m := trail,
                     Seen_m := 62135596802000000000,
                     SignalLevel_m := (SignalLevel_m (heap_m (app_aircraft a1) 0))
                        [nat (Messages_m (heap_m (app_aircraft a1) 0) smod 8) := 100],
                     Messages_m := Messages_m (heap_m (app_aircraft a1) 0) + 1\<rparr>)\<rparr>,
               app_msgRateAcc := app_msgRateAcc a1 + 1,
               app_sigAcc := app_sigAcc a1 + 100\<rparr>))"
  using assms
  by (simp add: processModeS_def airbornePosition_def resolvePosition_def frame_fields
      frame_shape UnixMilli_example GetOrCreate_map_def Let_def worked_example_map_odd
      Message_zero_def split: sum.splits)

text \<open>
  Claim C7. Appending more positions than the configured trail capacity is to leave the
  trail with exactly the capacity number of entries, the oldest discarded first and the
  newest last. With a configured trail length of 0 this fails in \<open>processModeS\<close>: the first
  frame of the pair is stored, and the second one, on which the position resolves, takes
  \<open>aircraft.Trail[1:]\<close> of the empty trail and panics, where the bound asks for a trail
  that stays empty. With the default length of 50 the same two frames leave a trail of one
  entry.
\<close>

theorem zero_trail_length_panics:
  "(\<exists>a1. processModeS 62135596801000000000 even_frame 0 zero_trail_app = Inr a1
        \<and> processModeS 62135596802000000000 odd_frame 0 a1 = Inl SliceBoundsOutOfRange)
   \<and> (\<exists>a1 a2. processModeS 62135596801000000000 even_frame 0 new_app = Inr a1
        \<and> processModeS 62135596802000000000 odd_frame 0 a1 = Inr a2
        \<and> length (Trail_m (heap_m (app_aircraft a2) 0)) = 1)"
proof
  obtain a1 where a1: "processModeS 62135596801000000000 even_frame 0 zero_trail_app = Inr a1"
    "data_m (app_aircraft a1) 0x40621D = Some 0" "app_TrailLength a1 = 0"
    "EvenCPRTime_m (heap_m (app_aircraft a1) 0) = 1000"
    "EvenCPRLat_m (heap_m (app_aircraft a1) 0) = 93000"
    "EvenCPRLon_m (heap_m (app_aircraft a1) 0) = 51372"
    "Trail_m (heap_m (app_aircraft a1) 0) = []"
    using even_frame_stored [of 0] unfolding zero_trail_app_def by blast
  have "processModeS 62135596802000000000 odd_frame 0 a1 = Inl SliceBoundsOutOfRange"
    by (simp add: odd_frame_resolves [OF a1(2) a1(4) a1(5) a1(6) a1(7)] a1(3) trail_append_def)
  with a1(1) show "\<exists>a1. processModeS 62135596801000000000 even_frame 0 zero_trail_app = Inr a1
        \<and> processModeS 62135596802000000000 odd_frame 0 a1 = Inl SliceBoundsOutOfRange"
    by blast
next
  have "new_app\<lparr>app_TrailLength := 50\<rparr> = new_app"
    by (simp add: new_app_def)
  then obtain a1 where a1: "processModeS 62135596801000000000 even_frame 0 new_app = Inr a1"
    "data_m (app_aircraft a1) 0x40621D = Some 0" "app_TrailLength a1 = 50"
    "EvenCPRTime_m (heap_m (app_aircraft a1) 0) = 1000"
    "EvenCPRLat_m (heap_m (app_aircraft a1) 0) = 93000"
    "EvenCPRLon_m (heap_m (app_aircraft a1) 0) = 51372"
    "Trail_m (heap_m (app_aircraft a1) 0) = []"
    using even_frame_stored [of 50] by auto
  have "\<exists>a2. processModeS 62135596802000000000 odd_frame 0 a1 = Inr a2
          \<and> length (Trail_m (heap_m (app_aircraft a2) 0)) = 1"
    by (simp add: odd_frame_resolves [OF a1(2) a1(4) a1(5) a1(6) a1(7)] a1(3) trail_append_def)
  with a1(1) show "\<exists>a1 a2. processModeS 62135596801000000000 even_frame 0 new_app = Inr a1
        \<and> processModeS 62135596802000000000 odd_frame 0 a1 = Inr a2
        \<and> length (Trail_m (heap_m (app_aircraft a2) 0)) = 1"
    by blast
qed

lemma RemoveStale_loop_map_notin:
  "icao \<notin> set ks \<Longrightarrow> RemoveStale_loop_map now ttl h ks d icao = d icao"
  by (induction ks arbitrary: d) (auto split: option.splits)

lemma RemoveStale_loop_map_None:
  "d icao = None \<Longrightarrow> RemoveStale_loop_map now ttl h ks d icao = None"
  by (induction ks arbitrary: d) (auto split: option.splits)

lemma RemoveStale_loop_map_in:
  "icao \<in> set ks \<Longrightarrow> d icao = Some p \<Longrightarrow>
   RemoveStale_loop_map now ttl h ks d icao
     = (if time_Sub now (Seen_m (h p)) > ttl then None else Some p)"
proof (induction ks arbitrary: d)
  case Nil
  then show ?case by simp
next
  case (Cons k ks)
  show ?case
  proof (cases "k = icao")
    case True
    show ?thesis
    proof (cases "time_Sub now (Seen_m (h p)) > ttl")
      case stale: True
      then show ?thesis
        using True Cons.prems(2) by (simp add: RemoveStale_loop_map_None)
    next
      case fresh: False
      show ?thesis
      proof (cases "icao \<in> set ks")
        case True
        then show ?thesis
          using \<open>k = icao\<close> fresh Cons.prems(2) Cons.IH [of d, OF True Cons.prems(2)] by simp
      next
        case False
        then show ?thesis
          using \<open>k = icao\<close> fresh Cons.prems(2) by (simp add: RemoveStale_loop_map_notin)
      qed
    qed
  next
    case False
    then have in_ks: "icao \<in> set ks"
      using Cons.prems(1) by simp
    have keep: "(d(k := None)) icao = Some p"
      using False Cons.prems(2) by simp
    have 1: "RemoveStale_loop_map now ttl h ks d icao
        = (if time_Sub now (Seen_m (h p)) > ttl then None else Some p)"
      by (rule Cons.IH [of d, OF in_ks Cons.prems(2)])
    have 2: "RemoveStale_loop_map now ttl h ks (d(k := None)) icao
        = (if time_Sub now (Seen_m (h p)) > ttl then None else Some p)"
      by (rule Cons.IH [of "d(k := None)", OF in_ks keep])
    show ?thesis
      by (simp add: 1 2 split: option.splits)
  qed
qed

text \<open>
  Claim C8. A sweep visits every key of the map (\<open>ks\<close> lists them, in any order). A
  track last seen more than the TTL before \<open>now\<close> is absent afterwards; a track seen
  within the TTL is still mapped to the same aircraft; and the sweep writes to no
  aircraft, so every field of every track is as before. The age is \<open>now.Sub(Seen)\<close>,
  which is the exact difference whenever that is a representable duration. The same
  holds for the copy of the store in map.go.
\<close>

theorem RemoveStale_sweep:
  assumes "set ks = dom (am_data am)" "am_data am icao = Some p"
    and "set ks' = dom (data_m am')" "data_m am' icao' = Some p'"
  shows "(time_Sub now (Seen (am_heap am p)) > ttl
            \<longrightarrow> am_data (RemoveStale now ttl ks am) icao = None)
       \<and> (time_Sub now (Seen (am_heap am p)) \<le> ttl
            \<longrightarrow> am_data (RemoveStale now ttl ks am) icao = Some p)
       \<and> am_heap (RemoveStale now ttl ks am) = am_heap am
       \<and> (time_Sub now (Seen_m (heap_m am' p')) > ttl
            \<longrightarrow> data_m (RemoveStale_map now ttl ks' am') icao' = None)
       \<and> (time_Sub now (Seen_m (heap_m am' p')) \<le> ttl
            \<longrightarrow> data_m (RemoveStale_map now ttl ks' am') icao' = Some p')
       \<and> heap_m (RemoveStale_map now ttl ks' am') = heap_m am'
       \<and> (minDuration \<le> now - t \<and> now - t \<le> maxDuration \<longrightarrow> time_Sub now t = now - t)"
proof -
  have "icao \<in> set ks"
    using assms(1,2) by auto
  then have 1: "am_data (RemoveStale now ttl ks am) icao
      = (if time_Sub now (Seen (am_heap am p)) > ttl then None else Some p)"
    using assms(2) by (simp add: RemoveStale_def RemoveStale_loop_in)
  have "icao' \<in> set ks'"
    using assms(3,4) by auto
  then have 2: "data_m (RemoveStale_map now ttl ks' am') icao'
      = (if time_Sub now (Seen_m (heap_m am' p')) > ttl then None else Some p')"
    using assms(4) by (simp add: RemoveStale_map_def RemoveStale_loop_map_in)
  show ?thesis
    by (simp add: 1 2 time_Sub_exact) (simp add: RemoveStale_def RemoveStale_map_def)
qed

lemma two_tracks_data:
  "am_data two_tracks = [1 \<mapsto> 0, 2 \<mapsto> 1]"
  "Seen (am_heap two_tracks 0) = 5000000000"
  "Seen (am_heap two_tracks (Suc 0)) = 20000000000"
  by (simp_all add: two_tracks_def GetOrCreate_def NewAircraftMap_def)

lemma two_tracks_map_data:
  "data_m two_tracks_map = [1 \<mapsto> 0, 2 \<mapsto> 1]"
  "Seen_m (heap_m two_tracks_map 0) = 5000000000"
  "Seen_m (heap_m two_tracks_map (Suc 0)) = 20000000000"
  by (simp_all add: two_tracks_map_def GetOrCreate_map_def NewAircraftMap_map_def)

theorem RemoveStale_sweep_witness:
  "am_data (RemoveStale 40000000000 30000000000 [1, 2] two_tracks) 1 = None
   \<and> am_data (RemoveStale 40000000000 30000000000 [1, 2] two_tracks) 2 = Some 1
   \<and> am_heap (RemoveStale 40000000000 30000000000 [1, 2] two_tracks) = am_heap two_tracks
   \<and> data_m (RemoveStale_map 40000000000 30000000000 [2, 1] two_tracks_map) 1 = None
   \<and> data_m (RemoveStale_map 40000000000 30000000000 [2, 1] two_tracks_map) 2 = Some 1
   \<and> heap_m (RemoveStale_map 40000000000 30000000000 [2, 1] two_tracks_map) = heap_m two_tracks_map"
  using RemoveStale_sweep [where ks = "[1, 2]" and am = two_tracks and icao = 1 and p = 0
      and ks' = "[2, 1]" and am' = two_tracks_map and icao' = 1 and p' = 0
      and now = 40000000000 and ttl = 30000000000 and t = 0]
    RemoveStale_sweep [where ks = "[1, 2]" and am = two_tracks and icao = 2 and p = 1
      and ks' = "[2, 1]" and am' = two_tracks_map and icao' = 2 and p' = 1
      and now = 40000000000 and ttl = 30000000000 and t = 0]
  by (simp add: two_tracks_data two_tracks_map_data time_Sub_def maxDuration_def minDuration_def
      doubleton_eq_iff)


lemma GetOrCreate_map_data:
  "data_m (snd (GetOrCreate_map now icao am)) icao = Some (fst (GetOrCreate_map now icao am))"
  by (simp add: GetOrCreate_map_def Let_def split: option.splits)


section \<open>Beast frames: proofs\<close>

text \<open>The byte stuffing of one byte, and the six timestamp bytes, as the encoder emits them.\<close>

lemma encode_data_concat:
  "encode_data bs buf = buf @ concat (map (\<lambda>b. if b = EscapeChar then [b, b] else [b]) bs)"
  by (induction bs arbitrary: buf) (simp_all add: Let_def)

lemma encode_timestamp_concat:
  "encode_timestamp n ts buf
     = buf @ concat (map (\<lambda>b. if b = EscapeChar then [b, b] else [b])
                      (map (\<lambda>i. ucast (drop_bit (8 * i) ts AND 0xFF) :: byte) (rev [0..<n])))"
  by (induction n arbitrary: buf) (simp_all add: Let_def)

lemma read_unescaped_concat:
  "read_unescaped (length bs)
      (concat (map (\<lambda>b. if b = EscapeChar then [b, b] else [b]) bs) @ rest)
     = Inr (bs, rest)"
  by (induction bs) simp_all

lemma kind_of_kind_byte: "kind_of_byte (kind_byte k) = Some k"
  by (cases k) (simp_all add: kind_of_byte_def kind_byte_def ModeAC_def ModeShort_def ModeLong_def)

lemma kind_byte_not_escape: "kind_byte k \<noteq> EscapeChar"
  by (cases k) (simp_all add: kind_byte_def ModeAC_def ModeShort_def ModeLong_def EscapeChar_def)

lemma rev_upt6: "rev [0..<6] = [5, 4, 3, 2, 1, 0::nat]"
  by (simp add: upt_rec)

lemma byte_of_timestamp:
  fixes ts :: "64 word"
  shows "ucast (ucast (drop_bit k ts AND 0xFF) :: byte) = take_bit 8 (drop_bit k ts)"
proof -
  have m: "(0xFF :: 64 word) = mask 8"
    by (simp add: mask_eq_exp_minus_1)
  show ?thesis
    unfolding m by (rule bit_eqI) (auto simp: bit_simps)
qed

lemma cat_step:
  fixes ts acc :: "64 word"
  shows "push_bit (8 * n) (push_bit 8 acc OR take_bit 8 (drop_bit (8 * n) ts)) OR take_bit (8 * n) ts
       = push_bit (8 * Suc n) acc OR take_bit (8 * Suc n) ts"
  by (rule bit_eqI) (auto simp: bit_simps add.commute)

lemma foldl_timestamp:
  fixes ts acc :: "64 word"
  shows "foldl (\<lambda>acc b. push_bit 8 acc OR ucast b) acc
           (map (\<lambda>i. ucast (drop_bit (8 * i) ts AND 0xFF) :: byte) (rev [0..<n]))
       = push_bit (8 * n) acc OR take_bit (8 * n) ts"
proof (induction n arbitrary: acc)
  case 0
  then show ?case by simp
next
  case (Suc n)
  have "foldl (\<lambda>acc b. push_bit 8 acc OR ucast b) acc
           (map (\<lambda>i. ucast (drop_bit (8 * i) ts AND 0xFF) :: byte) (rev [0..<Suc n]))
      = foldl (\<lambda>acc b. push_bit 8 acc OR ucast b)
           (push_bit 8 acc OR take_bit 8 (drop_bit (8 * n) ts))
           (map (\<lambda>i. ucast (drop_bit (8 * i) ts AND 0xFF) :: byte) (rev [0..<n]))"
    by (simp add: byte_of_timestamp)
  also have "\<dots> = push_bit (8 * n) (push_bit 8 acc OR take_bit 8 (drop_bit (8 * n) ts))
      OR take_bit (8 * n) ts"
    by (rule Suc.IH)
  also have "\<dots> = push_bit (8 * Suc n) acc OR take_bit (8 * Suc n) ts"
    by (rule cat_step)
  finally show ?case .
qed

lemma be_value_timestamp:
  "be_value (map (\<lambda>i. ucast (drop_bit (8 * i) ts AND 0xFF) :: byte) (rev [0..<6]))
     = take_bit 48 ts"
  unfolding be_value_def foldl_timestamp by simp

lemma encode_frame_stream:
  "encode_frame f
     = [EscapeChar, kind_byte (frame_kind f)]
       @ concat (map (\<lambda>b. if b = EscapeChar then [b, b] else [b])
           (map (\<lambda>i. ucast (drop_bit (8 * i) (frame_timestamp f) AND 0xFF) :: byte) (rev [0..<6])
            @ [frame_signal_level f] @ frame_payload f))"
  by (simp add: encode_frame_def encodeBeastMessage_def Let_def encode_timestamp_concat
      encode_data_concat)

lemma decode_encode_frame:
  assumes "length (frame_payload f) = payload_length (frame_kind f)"
  shows "decode_frame (encode_frame f @ rest)
       = Inr (f\<lparr>frame_timestamp := take_bit 48 (frame_timestamp f)\<rparr>, rest)"
proof -
  define tsb where
    "tsb = map (\<lambda>i. ucast (drop_bit (8 * i) (frame_timestamp f) AND 0xFF) :: byte) (rev [0..<6])"
  define bs where "bs = tsb @ [frame_signal_level f] @ frame_payload f"
  have ltsb: "length tsb = 6"
    by (simp add: tsb_def)
  have len: "7 + payload_length (frame_kind f) = length bs"
    using assms by (simp add: bs_def ltsb)
  have stream: "encode_frame f @ rest
      = EscapeChar # kind_byte (frame_kind f)
          # (concat (map (\<lambda>b. if b = EscapeChar then [b, b] else [b]) bs) @ rest)"
    by (simp add: encode_frame_stream bs_def tsb_def)
  have rd: "read_unescaped (7 + payload_length (frame_kind f))
        (concat (map (\<lambda>b. if b = EscapeChar then [b, b] else [b]) bs) @ rest)
      = Inr (bs, rest)"
    unfolding len by (rule read_unescaped_concat)
  have parts: "take 6 bs = tsb" "bs ! 6 = frame_signal_level f" "drop 7 bs = frame_payload f"
    using ltsb by (simp_all add: bs_def nth_append)
  have ts: "be_value tsb = take_bit 48 (frame_timestamp f)"
    unfolding tsb_def by (rule be_value_timestamp)
  have "decode_frame (encode_frame f @ rest)
      = Inr (\<lparr>frame_kind = frame_kind f, frame_timestamp = take_bit 48 (frame_timestamp f),
              frame_signal_level = frame_signal_level f, frame_payload = frame_payload f\<rparr>, rest)"
    unfolding stream decode_frame_def
    by (simp add: kind_of_kind_byte rd parts ts del: read_unescaped.simps)
  then show ?thesis
    by (cases f) simp
qed

text \<open>
  Claim C9 (as amended). For every frame whose payload has the length its kind fixes,
  encoding it with \<open>encodeBeastMessage\<close> and decoding the resulting bytes, whatever follows
  them in the stream, gives back the kind, the signal level and the payload, and the low
  48 bits of the timestamp; the rest of the stream is left unread. A frame whose
  timestamp is below 2 to the 48 is reproduced exactly.
\<close>

theorem beast_round_trip:
  "length (frame_payload f) = payload_length (frame_kind f) \<longrightarrow>
     decode_frame (encode_frame f @ rest)
       = Inr (f\<lparr>frame_timestamp := take_bit 48 (frame_timestamp f)\<rparr>, rest)
     \<and> (frame_timestamp f < 2 ^ 48 \<longrightarrow> decode_frame (encode_frame f) = Inr (f, []))"
proof (intro impI conjI)
  assume l: "length (frame_payload f) = payload_length (frame_kind f)"
  then show "decode_frame (encode_frame f @ rest)
       = Inr (f\<lparr>frame_timestamp := take_bit 48 (frame_timestamp f)\<rparr>, rest)"
    by (rule decode_encode_frame)
  assume "frame_timestamp f < 2 ^ 48"
  then have "take_bit 48 (frame_timestamp f) = frame_timestamp f"
    using less_mask_eq [of "frame_timestamp f" 48] by (simp add: take_bit_eq_mask)
  then show "decode_frame (encode_frame f) = Inr (f, [])"
    using decode_encode_frame [OF l, of "[]"] by simp
qed

theorem beast_round_trip_witness:
  "decode_frame (encode_frame (example_frame 0x1A001A2B3C)) = Inr (example_frame 0x1A001A2B3C, [])
   \<and> decode_frame (encode_frame (example_frame 0x1A001A2B3C) @ [0x1A, 0x31])
       = Inr (example_frame 0x1A001A2B3C, [0x1A, 0x31])"
  using beast_round_trip [of "example_frame 0x1A001A2B3C" "[0x1A, 0x31]"]
  by (simp add: example_frame_def payload_length_def)

text \<open>
  The claim as first stated fails for a timestamp of 2 to the 48: the encoder writes its
  six low bytes only, and the decoded frame carries the timestamp 0.
\<close>

theorem beast_round_trip_counterexample:
  "decode_frame (encode_frame (example_frame 0x1000000000000))
     = Inr ((example_frame 0x1000000000000)\<lparr>frame_timestamp := 0\<rparr>, [])
   \<and> example_frame 0x1000000000000 \<noteq> (example_frame 0x1000000000000)\<lparr>frame_timestamp := 0\<rparr>"
proof -
  have "length (frame_payload (example_frame 0x1000000000000))
      = payload_length (frame_kind (example_frame 0x1000000000000))"
    by (simp add: example_frame_def payload_length_def)
  from decode_encode_frame [OF this, of "[]"] show ?thesis
    by (simp add: example_frame_def)
qed

section \<open>Truncated extended squitters: proofs\<close>

lemma DecodeMessage_short:
  assumes "uint (drop_bit 3 (data ! 0)) = 17 \<or> uint (drop_bit 3 (data ! 0)) = 18"
    and "length data < 14"
  shows "DecodeMessage data ts = None"
  using assms by (auto simp: DecodeMessage_def Let_def)

lemma vertRate_of_keeps:
  "msg_DF (vertRate_of data msg) = msg_DF msg"
  "msg_ICAO (vertRate_of data msg) = msg_ICAO msg"
  by (simp_all add: vertRate_of_def Let_def)

lemma decodeSurfacePosition_keeps:
  "msg_DF (decodeSurfacePosition data msg) = msg_DF msg"
  "msg_ICAO (decodeSurfacePosition data msg) = msg_ICAO msg"
  by (simp_all add: decodeSurfacePosition_def Let_def)

lemma decodeAirbornePosition_keeps:
  "msg_DF (decodeAirbornePosition data msg) = msg_DF msg"
  "msg_ICAO (decodeAirbornePosition data msg) = msg_ICAO msg"
  by (simp_all add: decodeAirbornePosition_def Let_def)

lemma decodeGroundSpeed_keeps:
  "msg_DF (decodeGroundSpeed data subtype msg) = msg_DF msg"
  "msg_ICAO (decodeGroundSpeed data subtype msg) = msg_ICAO msg"
  by (simp_all add: decodeGroundSpeed_def Let_def vertRate_of_keeps split: prod.splits)

lemma decodeAirspeed_keeps:
  "msg_DF (decodeAirspeed data subtype msg) = msg_DF msg"
  "msg_ICAO (decodeAirspeed data subtype msg) = msg_ICAO msg"
  by (simp_all add: decodeAirspeed_def Let_def vertRate_of_keeps)

lemma decodeTypeCode_keeps:
  "msg_DF (decodeTypeCode data msg) = msg_DF msg"
  "msg_ICAO (decodeTypeCode data msg) = msg_ICAO msg"
  by (simp_all add: decodeTypeCode_def Let_def decodeSurfacePosition_keeps
      decodeAirbornePosition_keeps decodeGroundSpeed_keeps decodeAirspeed_keeps)

lemma DecodeMessage_full:
  assumes "uint (drop_bit 3 (data ! 0)) = 17 \<or> uint (drop_bit 3 (data ! 0)) = 18"
    and "14 \<le> length data"
  shows "\<exists>msg. DecodeMessage data ts = Some msg
           \<and> msg_DF msg = uint (drop_bit 3 (data ! 0)) \<and> msg_ICAO msg = icao_of data"
  using assms by (auto simp: DecodeMessage_def Let_def decodeTypeCode_keeps)

lemma processModeS_header_only:
  assumes "drop_bit 3 (data ! 0) = 17 \<or> drop_bit 3 (data ! 0) = 18"
    and "length data = 4
         \<or> 5 \<le> length data
            \<and> \<not> (drop_bit 3 (data ! 4) \<ge> 1 \<and> drop_bit 3 (data ! 4) \<le> 4)
            \<and> \<not> (drop_bit 3 (data ! 4) \<ge> 9 \<and> drop_bit 3 (data ! 4) \<le> 18)"
  shows "\<exists>a' p. processModeS now data timestamp a = Inr a'
           \<and> data_m (app_aircraft a') (icao_of data) = Some p
           \<and> Seen_m (heap_m (app_aircraft a') p) = now"
proof -
  obtain p am where g: "GetOrCreate_map now (icao_of data) (app_aircraft a) = (p, am)"
    by (cases "GetOrCreate_map now (icao_of data) (app_aircraft a)")
  have d: "data_m am (icao_of data) = Some p"
    using GetOrCreate_map_data [of now "icao_of data" "app_aircraft a"] by (simp add: g)
  have len: "\<not> length data < 4"
    using assms(2) by auto
  have df: "\<not> (drop_bit 3 (data ! 0) \<noteq> 17 \<and> drop_bit 3 (data ! 0) \<noteq> 18)"
    using assms(1) by auto
  show ?thesis
    using assms(2) len df
    by (auto simp: processModeS_def Let_def g d split: prod.splits)
qed

lemma uint_byte_17_18:
  "uint (w::byte) = 17 \<longleftrightarrow> w = 17" "uint (w::byte) = 18 \<longleftrightarrow> w = 18"
  by (simp_all add: word_uint_eq_iff)

lemma truncated_position_decode:
  "DecodeMessage [0x8D, 0x48, 0x40, 0xD6, 0x58, 0xC3, 0x82] 0 = None"
  by (simp add: DecodeMessage_def)

lemma truncated_position_panics:
  "processModeS 1 [0x8D, 0x48, 0x40, 0xD6, 0x58, 0xC3, 0x82] 0 new_app = Inl IndexOutOfRange"
  by (simp add: processModeS_def new_app_def NewAircraftMap_map_def GetOrCreate_map_def
      airbornePosition_def Let_def)

text \<open>
  Claim C4 (as amended). For every extended-squitter frame (DF17 or DF18) of at least 4
  bytes: \<open>DecodeMessage\<close> returns no message when the frame has fewer than 14 bytes, and
  a message carrying the downlink format and the ICAO address of bytes 1 to 3 when it has
  14 or more; \<open>processModeS\<close>, for a frame of exactly 4 bytes, or of 5 bytes or more
  whose type code is neither 1 to 4 nor 9 to 18, finds or creates the track of that ICAO
  address and records the time, leaving out the fields the frame does not carry.
\<close>

theorem truncated_extended_squitter:
  assumes "4 \<le> length data"
    and "drop_bit 3 (data ! 0) = 17 \<or> drop_bit 3 (data ! 0) = 18"
  shows "(length data < 14 \<longrightarrow> DecodeMessage data ts = None)
       \<and> (14 \<le> length data \<longrightarrow>
            (\<exists>msg. DecodeMessage data ts = Some msg
               \<and> msg_DF msg = uint (drop_bit 3 (data ! 0)) \<and> msg_ICAO msg = icao_of data))
       \<and> (length data = 4
            \<or> \<not> (drop_bit 3 (data ! 4) \<ge> 1 \<and> drop_bit 3 (data ! 4) \<le> 4)
               \<and> \<not> (drop_bit 3 (data ! 4) \<ge> 9 \<and> drop_bit 3 (data ! 4) \<le> 18) \<longrightarrow>
            (\<exists>a' p. processModeS now data timestamp a = Inr a'
               \<and> data_m (app_aircraft a') (icao_of data) = Some p
               \<and> Seen_m (heap_m (app_aircraft a') p) = now))"
proof (intro conjI impI)
  have df: "uint (drop_bit 3 (data ! 0)) = 17 \<or> uint (drop_bit 3 (data ! 0)) = 18"
    using assms(2) by (simp add: uint_byte_17_18)
  show "DecodeMessage data ts = None" if "length data < 14"
    using df that by (rule DecodeMessage_short)
  show "\<exists>msg. DecodeMessage data ts = Some msg
          \<and> msg_DF msg = uint (drop_bit 3 (data ! 0)) \<and> msg_ICAO msg = icao_of data"
    if "14 \<le> length data"
    using df that by (rule DecodeMessage_full)
  show "\<exists>a' p. processModeS now data timestamp a = Inr a'
          \<and> data_m (app_aircraft a') (icao_of data) = Some p
          \<and> Seen_m (heap_m (app_aircraft a') p) = now"
    if "length data = 4
        \<or> \<not> (drop_bit 3 (data ! 4) \<ge> 1 \<and> drop_bit 3 (data ! 4) \<le> 4)
           \<and> \<not> (drop_bit 3 (data ! 4) \<ge> 9 \<and> drop_bit 3 (data ! 4) \<le> 18)"
  proof (rule processModeS_header_only [OF assms(2)])
    show "length data = 4
        \<or> 5 \<le> length data
          \<and> \<not> (drop_bit 3 (data ! 4) \<ge> 1 \<and> drop_bit 3 (data ! 4) \<le> 4)
          \<and> \<not> (drop_bit 3 (data ! 4) \<ge> 9 \<and> drop_bit 3 (data ! 4) \<le> 18)"
      using that assms(1) by auto
  qed
qed

theorem truncated_extended_squitter_witness:
  "DecodeMessage [0x8D, 0x48, 0x40, 0xD6] 0 = None
   \<and> (\<exists>msg. DecodeMessage [0x8D, 0x48, 0x40, 0xD6, 0x20, 0x2C, 0xC3, 0x71, 0xC3, 0x2C, 0xE0,
                     0x00, 0x00, 0x00] 0 = Some msg
          \<and> msg_DF msg = 17 \<and> msg_ICAO msg = 0x4840D6)
   \<and> (\<exists>a' p. processModeS 1 [0x8D, 0x48, 0x40, 0xD6] 0 new_app = Inr a'
          \<and> data_m (app_aircraft a') 0x4840D6 = Some p
          \<and> Seen_m (heap_m (app_aircraft a') p) = 1)"
  using truncated_extended_squitter [of "[0x8D, 0x48, 0x40, 0xD6]" 0 1 0 new_app]
    truncated_extended_squitter [of "[0x8D, 0x48, 0x40, 0xD6, 0x20, 0x2C, 0xC3, 0x71, 0xC3, 0x2C,
      0xE0, 0x00, 0x00, 0x00]" 0 1 0 new_app]
  by (simp add: icao_of_def)

text \<open>
  The claim as first stated fails on the 7-byte frame 8D 48 40 D6 58 C3 82 (DF17, type
  code 11, body cut after two bytes): \<open>DecodeMessage\<close> returns no message at all, and
  \<open>processModeS\<close> stops in an index-out-of-range panic.
\<close>

theorem truncated_extended_squitter_counterexample:
  "DecodeMessage [0x8D, 0x48, 0x40, 0xD6, 0x58, 0xC3, 0x82] 0 = None
   \<and> processModeS 1 [0x8D, 0x48, 0x40, 0xD6, 0x58, 0xC3, 0x82] 0 new_app = Inl IndexOutOfRange"
  by (simp add: truncated_position_decode truncated_position_panics)

end
